theory Spec2Isabelle
  imports Complex_Main
begin

section \<open>Go values used by the domain layer\<close>

text \<open>
  The domain layer of the employee management backend (package \<open>domain\<close>) is embedded
  function by function. Strings are Go strings, that is byte sequences, so \<open>length\<close> is
  Go's \<open>len\<close>. A \<open>uuid.UUID\<close> is a 16 byte array of which only equality is used; it is a
  natural number here and \<open>uuid.Nil\<close> is zero. A \<open>time.Time\<close> is an instant, counted from
  Go's zero time, so \<open>IsZero\<close> is equality with zero.
\<close>

type_synonym uuid = nat

definition uuid_Nil :: uuid where
  "uuid_Nil = 0"

type_synonym gotime = int

definition IsZero :: "gotime \<Rightarrow> bool" where
  "IsZero t = (t = 0)"

text \<open>
  A \<open>float64\<close> is a finite value, an infinity or a NaN. Comparisons of floating point
  values are exact, so they are the comparisons of the reals the values denote; every
  comparison with a NaN is false. Negative zero and zero denote the same real, as they
  compare equal in Go.
\<close>

datatype float64 = Fin real | PosInf | NegInf | NaN

fun f64_lt :: "float64 \<Rightarrow> float64 \<Rightarrow> bool" where
  "f64_lt (Fin a) (Fin b) = (a < b)"
| "f64_lt (Fin a) PosInf = True"
| "f64_lt NegInf (Fin b) = True"
| "f64_lt NegInf PosInf = True"
| "f64_lt _ _ = False"

fun f64_eq :: "float64 \<Rightarrow> float64 \<Rightarrow> bool" where
  "f64_eq (Fin a) (Fin b) = (a = b)"
| "f64_eq PosInf PosInf = True"
| "f64_eq NegInf NegInf = True"
| "f64_eq _ _ = False"

definition f64_gt :: "float64 \<Rightarrow> float64 \<Rightarrow> bool" where
  "f64_gt a b = f64_lt b a"

definition f64_le :: "float64 \<Rightarrow> float64 \<Rightarrow> bool" where
  "f64_le a b = (f64_lt a b \<or> f64_eq a b)"

text \<open>
  Arithmetic follows IEEE 754 on infinities and NaN. On finite values the model keeps the
  exact real: it does not round to the nearest representable value. A division by zero is
  kept apart as \<open>None\<close>.
\<close>

fun f64_neg :: "float64 \<Rightarrow> float64" where
  "f64_neg (Fin a) = Fin (- a)"
| "f64_neg PosInf = NegInf"
| "f64_neg NegInf = PosInf"
| "f64_neg NaN = NaN"

fun f64_add :: "float64 \<Rightarrow> float64 \<Rightarrow> float64" where
  "f64_add (Fin a) (Fin b) = Fin (a + b)"
| "f64_add NaN _ = NaN"
| "f64_add _ NaN = NaN"
| "f64_add PosInf NegInf = NaN"
| "f64_add NegInf PosInf = NaN"
| "f64_add PosInf _ = PosInf"
| "f64_add _ PosInf = PosInf"
| "f64_add NegInf _ = NegInf"
| "f64_add _ NegInf = NegInf"

definition f64_sub :: "float64 \<Rightarrow> float64 \<Rightarrow> float64" where
  "f64_sub a b = f64_add a (f64_neg b)"

fun f64_mul :: "float64 \<Rightarrow> float64 \<Rightarrow> float64" where
  "f64_mul (Fin a) (Fin b) = Fin (a * b)"
| "f64_mul NaN _ = NaN"
| "f64_mul _ NaN = NaN"
| "f64_mul (Fin a) b = (if a = 0 then NaN else if 0 < a then b else f64_neg b)"
| "f64_mul a (Fin b) = (if b = 0 then NaN else if 0 < b then a else f64_neg a)"
| "f64_mul PosInf b = b"
| "f64_mul NegInf b = f64_neg b"

fun f64_quotient :: "float64 \<Rightarrow> float64 \<Rightarrow> float64" where
  "f64_quotient (Fin a) (Fin b) = Fin (a / b)"
| "f64_quotient NaN _ = NaN"
| "f64_quotient _ NaN = NaN"
| "f64_quotient (Fin a) _ = Fin 0"
| "f64_quotient a (Fin b) = (if 0 < b then a else f64_neg a)"
| "f64_quotient _ _ = NaN"

definition f64_div :: "float64 \<Rightarrow> float64 \<Rightarrow> float64 option" where
  "f64_div a b = (if f64_eq b (Fin 0) then None else Some (f64_quotient a b))"

text \<open>
  Errors. \<open>ErrorString m\<close> is \<open>errors.New(m)\<close>, or \<open>fmt.Errorf\<close> without \<open>%w\<close> once
  formatted; \<open>Wrapped p e\<close> is \<open>fmt.Errorf(p + ": %w", e)\<close>; \<open>DispatchFailed n es\<close> is
  \<open>fmt.Errorf("event dispatch had %d errors: %v", n, es)\<close> with its two arguments kept.
  The other constructors are the package's sentinel errors, which are compared by
  identity.
\<close>

datatype error =
    ErrorString string
  | Wrapped string error
  | DispatchFailed nat "error list"
  | ErrEmployeeNotFound
  | ErrEmailAlreadyExists
  | ErrManagerNotFound
  | ErrEmployeeHasDirectReports
  | ErrUserNotFound
  | ErrInvalidCredentials
  | ErrUserNotActive

text \<open>
  A validator is a sequence of checks, each returning at its first failure. All checks
  are pure, so the sequence is the first error of the list of their results.
\<close>

fun first_error :: "error option list \<Rightarrow> error option" where
  "first_error [] = None"
| "first_error (Some e # cs) = Some e"
| "first_error (None # cs) = first_error cs"

definition check :: "bool \<Rightarrow> string \<Rightarrow> error option" where
  "check failed msg = (if failed then Some (ErrorString msg) else None)"

text \<open>
  A value of type \<open>interface{}\<close>, as the snapshots, the audit logs and the event payloads
  hold them: nil, or a value with its dynamic type. A Go map is the list of its entries,
  with distinct keys, in the order in which a \<open>range\<close> loop happens to visit them; a nil
  map is the empty list, as the code only reads maps with \<open>len\<close>, \<open>range\<close> and index
  expressions.
\<close>

datatype gvalue =
    VNil
  | VString string
  | VFloat float64
  | VInt int
  | VBool bool
  | VUUID uuid
  | VTime gotime
  | VStrings "string list"
  | VMap "(string \<times> gvalue) list"

type_synonym gomap = "(string \<times> gvalue) list"

text \<open>
  A run ends with a result, or it leaves the defined behaviour: a nil pointer is
  dereferenced or two interface values of one uncomparable dynamic type are compared
  (both run-time panics), or a floating point value is divided by zero (the language leaves
  the result, and whether the run panics, to the implementation).
\<close>

datatype fault = NilPointerDereference | UncomparableType | FloatDivisionByZero

datatype 'a exec = Done 'a | Fault fault

text \<open>
  What the code takes from libraries: the runes a \<open>range\<close> loop over a string yields,
  the tables \<open>unicode.IsLetter\<close> and \<open>unicode.IsSpace\<close>, \<open>strings.ToUpper\<close>,
  \<open>strings.TrimSpace\<close>, \<open>fmt.Sprintf("%v", v)\<close>, \<open>uuid.Parse\<close>, and whether
  \<open>bcrypt.CompareHashAndPassword(hash, password)\<close> returns nil. They are parameters of
  the model.
\<close>

record golib =
  runes :: "string \<Rightarrow> nat list"
  IsLetter :: "nat \<Rightarrow> bool"
  IsSpace :: "nat \<Rightarrow> bool"
  ToUpper :: "string \<Rightarrow> string"
  TrimSpace :: "string \<Rightarrow> string"
  Sprintf_v :: "gvalue \<Rightarrow> string"
  uuid_Parse :: "string \<Rightarrow> error + uuid"
  CompareHashAndPassword :: "string \<Rightarrow> string \<Rightarrow> bool"

text \<open>
  The regular expressions of the code only have classes of ASCII characters, so they are
  decided on the bytes of the string: a byte of a longer UTF-8 sequence is in no class.
  \<open>\d\<close> is \<open>[0-9]\<close> and \<open>\s\<close> is \<open>[\t\n\f\r ]\<close> in Go's syntax.
\<close>

definition lower_az :: string where
  "lower_az = ''abcdefghijklmnopqrstuvwxyz''"

definition upper_AZ :: string where
  "upper_AZ = ''ABCDEFGHIJKLMNOPQRSTUVWXYZ''"

definition digits_09 :: string where
  "digits_09 = ''0123456789''"

definition in_class :: "string \<Rightarrow> char \<Rightarrow> bool" where
  "in_class cs c = (c \<in> set cs)"

definition re_space :: string where
  "re_space = [CHR 0x09, CHR 0x0A, CHR 0x0C, CHR 0x0D, CHR '' '']"

text \<open>\<open>^[a-zA-Z0-9._%+-]+@[a-zA-Z0-9.-]+\.[a-zA-Z]{2,}$\<close>: the local part ends at the
  first \<open>@\<close>, the top level domain starts after the last dot.\<close>

definition emailRegex :: "string \<Rightarrow> bool" where
  "emailRegex s =
     (let local = takeWhile (\<lambda>c. c \<noteq> CHR ''@'') s;
          rest = drop (length local) s;
          r = tl rest;
          tld = rev (takeWhile (\<lambda>c. c \<noteq> CHR ''.'') (rev r));
          dom = take (length r - length tld - 1) r
      in rest \<noteq> [] \<and> local \<noteq> [] \<and>
         list_all (in_class (lower_az @ upper_AZ @ digits_09 @ ''._%+-'')) local \<and>
         length tld < length r \<and> dom \<noteq> [] \<and>
         list_all (in_class (lower_az @ upper_AZ @ digits_09 @ ''.-'')) dom \<and>
         2 \<le> length tld \<and> list_all (in_class (lower_az @ upper_AZ)) tld)"

text \<open>\<open>^[\d\s\-\+\(\)]+$\<close>\<close>

definition phoneRegex :: "string \<Rightarrow> bool" where
  "phoneRegex s = (s \<noteq> [] \<and> list_all (in_class (digits_09 @ re_space @ ''-+()'')) s)"

text \<open>\<open>^\d{5}(-\d{4})?$\<close>\<close>

definition usZip :: "string \<Rightarrow> bool" where
  "usZip s =
     ((length s = 5 \<and> list_all (in_class digits_09) s) \<or>
      (length s = 10 \<and> list_all (in_class digits_09) (take 5 s) \<and> s ! 5 = CHR ''-'' \<and>
       list_all (in_class digits_09) (drop 6 s)))"

text \<open>\<open>^[A-Z]\d[A-Z][ ]?\d[A-Z]\d$\<close>\<close>

definition caPostal :: "string \<Rightarrow> bool" where
  "caPostal s =
     (case s of
        [a, b, c, d, e, f] \<Rightarrow>
          in_class upper_AZ a \<and> in_class digits_09 b \<and> in_class upper_AZ c \<and>
          in_class digits_09 d \<and> in_class upper_AZ e \<and> in_class digits_09 f
      | [a, b, c, sp, d, e, f] \<Rightarrow>
          in_class upper_AZ a \<and> in_class digits_09 b \<and> in_class upper_AZ c \<and>
          sp = CHR '' '' \<and>
          in_class digits_09 d \<and> in_class upper_AZ e \<and> in_class digits_09 f
      | _ \<Rightarrow> False)"

text \<open>\<open>^[A-Z0-9]{3,10}$\<close>\<close>

definition general :: "string \<Rightarrow> bool" where
  "general s = (3 \<le> length s \<and> length s \<le> 10 \<and> list_all (in_class (upper_AZ @ digits_09)) s)"

section \<open>Address\<close>

record Address =
  Street :: string
  City :: string
  State :: string
  PostalCode :: string
  Country :: string

text \<open>\<open>strings.ReplaceAll(postalCode, " ", "")\<close> removes every space byte.\<close>

definition validatePostalCode :: "golib \<Rightarrow> string \<Rightarrow> error option" where
  "validatePostalCode lib postalCode =
     (let normalized = ToUpper lib (filter (\<lambda>c. c \<noteq> CHR '' '') postalCode)
      in if usZip postalCode \<or> caPostal postalCode \<or> general normalized then None
         else Some (ErrorString ''postal code format is invalid''))"

text \<open>\<open>Address.Validate\<close> on a receiver that is not nil (a nil address is valid).\<close>

definition Address_Validate :: "golib \<Rightarrow> Address \<Rightarrow> error option" where
  "Address_Validate lib a =
     first_error
      [if Street a \<noteq> [] \<or> City a \<noteq> [] \<or> State a \<noteq> [] \<or> PostalCode a \<noteq> [] \<or> Country a \<noteq> []
       then first_error
         [check (Street a = []) ''street is required when other address fields are provided'',
          check (City a = []) ''city is required when other address fields are provided'',
          check (State a = []) ''state is required when other address fields are provided'',
          check (PostalCode a = [])
            ''postal code is required when other address fields are provided'',
          check (Country a = []) ''country is required when other address fields are provided'']
       else None,
       check (Street a \<noteq> [] \<and> length (Street a) < 5) ''street must be at least 5 characters long'',
       check (length (Street a) > 200) ''street cannot exceed 200 characters'',
       check (City a \<noteq> [] \<and> length (City a) < 2) ''city must be at least 2 characters long'',
       check (length (City a) > 100) ''city cannot exceed 100 characters'',
       check (State a \<noteq> [] \<and> length (State a) < 2) ''state must be at least 2 characters long'',
       check (length (State a) > 50) ''state cannot exceed 50 characters'',
       if PostalCode a \<noteq> []
       then map_option (Wrapped ''invalid postal code'') (validatePostalCode lib (PostalCode a))
       else None,
       check (Country a \<noteq> [] \<and> length (Country a) < 2)
         ''country must be at least 2 characters long'',
       check (length (Country a) > 100) ''country cannot exceed 100 characters'']"

definition NewAddress ::
  "golib \<Rightarrow> string \<Rightarrow> string \<Rightarrow> string \<Rightarrow> string \<Rightarrow> string \<Rightarrow> error + Address" where
  "NewAddress lib street city state postalCode country =
     (let addr = \<lparr>Street = TrimSpace lib street, City = TrimSpace lib city,
                  State = TrimSpace lib state, PostalCode = TrimSpace lib postalCode,
                  Country = TrimSpace lib country\<rparr>
      in case Address_Validate lib addr of Some err \<Rightarrow> Inl err | None \<Rightarrow> Inr addr)"

section \<open>EmployeeStatus\<close>

text \<open>\<open>type EmployeeStatus string\<close>: any string is a value of the type, three are valid.\<close>

type_synonym EmployeeStatus = string

definition EmployeeStatusActive :: EmployeeStatus where
  "EmployeeStatusActive = ''ACTIVE''"

definition EmployeeStatusTerminated :: EmployeeStatus where
  "EmployeeStatusTerminated = ''TERMINATED''"

definition EmployeeStatusOnLeave :: EmployeeStatus where
  "EmployeeStatusOnLeave = ''ON_LEAVE''"

definition IsValid :: "EmployeeStatus \<Rightarrow> bool" where
  "IsValid s =
     (if s = EmployeeStatusActive \<or> s = EmployeeStatusTerminated \<or> s = EmployeeStatusOnLeave
      then True else False)"

definition CanChangeTo :: "EmployeeStatus \<Rightarrow> EmployeeStatus \<Rightarrow> bool" where
  "CanChangeTo s target = (if s = EmployeeStatusTerminated then False else IsValid target)"

definition ValidateTransition :: "EmployeeStatus \<Rightarrow> EmployeeStatus \<Rightarrow> error option" where
  "ValidateTransition s target =
     (if \<not> CanChangeTo s target
      then Some (ErrorString (''invalid status transition from '' @ s @ '' to '' @ target))
      else None)"

section \<open>Employee\<close>

record Employee =
  ID :: uuid
  FirstName :: string
  LastName :: string
  Email :: string
  Phone :: string
  Department :: string
  Position :: string
  HireDate :: gotime
  Salary :: float64
  Status :: EmployeeStatus
  ManagerID :: "uuid option"
  Address :: "Address option"
  CreatedAt :: gotime
  UpdatedAt :: gotime

text \<open>
  The clock: what \<open>time.Now()\<close> returns while one operation runs, and
  \<open>time.Now().AddDate(-50, 0, 0)\<close>, the calendar date fifty years before it.
\<close>

record clock =
  Now :: gotime
  Now_minus_50y :: gotime

definition validateName :: "golib \<Rightarrow> string \<Rightarrow> string \<Rightarrow> error option" where
  "validateName lib name fieldName =
     first_error
      [check (name = []) (fieldName @ '' is required''),
       check (length name < 2) (fieldName @ '' must be at least 2 characters long''),
       check (length name > 50) (fieldName @ '' cannot exceed 50 characters''),
       check (list_ex (\<lambda>r. \<not> IsLetter lib r \<and> \<not> IsSpace lib r \<and> r \<noteq> 45 \<and> r \<noteq> 39)
                (runes lib name))
         (fieldName @ '' contains invalid characters'')]"

definition validateEmail :: "string \<Rightarrow> error option" where
  "validateEmail email =
     first_error
      [check (email = []) ''email is required'',
       check (length email > 100) ''email cannot exceed 100 characters'',
       check (\<not> emailRegex email) ''email format is invalid'']"

definition validatePhone :: "string \<Rightarrow> error option" where
  "validatePhone phone =
     first_error
      [check (length phone > 20) ''phone cannot exceed 20 characters'',
       check (\<not> phoneRegex phone) ''phone format is invalid'']"

definition validateDepartment :: "golib \<Rightarrow> string \<Rightarrow> error option" where
  "validateDepartment lib department =
     first_error
      [check (department = []) ''department is required'',
       check (length department < 2) ''department must be at least 2 characters long'',
       check (length department > 50) ''department cannot exceed 50 characters'',
       check (list_ex (\<lambda>r. \<not> IsLetter lib r \<and> \<not> IsSpace lib r \<and> r \<noteq> 38)
                (runes lib department))
         ''department contains invalid characters'']"

definition validatePosition :: "golib \<Rightarrow> string \<Rightarrow> error option" where
  "validatePosition lib position =
     first_error
      [check (position = []) ''position is required'',
       check (length position < 2) ''position must be at least 2 characters long'',
       check (length position > 50) ''position cannot exceed 50 characters'',
       check (list_ex (\<lambda>r. \<not> IsLetter lib r \<and> \<not> IsSpace lib r \<and> r \<noteq> 45 \<and> r \<noteq> 47)
                (runes lib position))
         ''position contains invalid characters'']"

definition validateHireDate :: "clock \<Rightarrow> gotime \<Rightarrow> error option" where
  "validateHireDate clk hireDate =
     first_error
      [check (IsZero hireDate) ''hire date is required'',
       check (hireDate > Now clk) ''hire date cannot be in the future'',
       check (hireDate < Now_minus_50y clk)
         ''hire date cannot be more than 50 years in the past'']"

definition validateSalary :: "float64 \<Rightarrow> error option" where
  "validateSalary salary =
     first_error
      [check (f64_lt salary (Fin 0)) ''salary cannot be negative'',
       check (f64_eq salary (Fin 0)) ''salary is required'',
       check (f64_gt salary (Fin 1000000)) ''salary cannot exceed $1,000,000'']"

text \<open>\<open>Employee.Validate\<close> on a receiver that is not nil.\<close>

definition Employee_Validate :: "golib \<Rightarrow> clock \<Rightarrow> Employee \<Rightarrow> error option" where
  "Employee_Validate lib clk e =
     first_error
      [check (ID e = uuid_Nil) ''employee ID cannot be empty'',
       validateName lib (FirstName e) ''first name'',
       validateName lib (LastName e) ''last name'',
       validateEmail (Email e),
       if Phone e \<noteq> [] then validatePhone (Phone e) else None,
       validateDepartment lib (Department e),
       validatePosition lib (Position e),
       validateHireDate clk (HireDate e),
       validateSalary (Salary e),
       check (\<not> IsValid (Status e)) (''invalid employee status: '' @ Status e),
       case Address e of
         None \<Rightarrow> None
       | Some a \<Rightarrow> map_option (Wrapped ''invalid address'') (Address_Validate lib a)]"

text \<open>\<open>NewEmployee\<close>; \<open>newid\<close> is what \<open>uuid.New()\<close> returns.\<close>

definition NewEmployee ::
  "golib \<Rightarrow> clock \<Rightarrow> uuid \<Rightarrow> string \<Rightarrow> string \<Rightarrow> string \<Rightarrow> string \<Rightarrow> string \<Rightarrow> string \<Rightarrow>
   gotime \<Rightarrow> float64 \<Rightarrow> uuid option \<Rightarrow> Address option \<Rightarrow> error + Employee" where
  "NewEmployee lib clk newid firstName lastName email phone department position hireDate
     salary managerID address =
     (let employee = \<lparr>ID = newid, FirstName = firstName, LastName = lastName, Email = email,
                      Phone = phone, Department = department, Position = position,
                      HireDate = hireDate, Salary = salary, Status = EmployeeStatusActive,
                      ManagerID = managerID, Address = address,
                      CreatedAt = Now clk, UpdatedAt = Now clk\<rparr>
      in case Employee_Validate lib clk employee of Some err \<Rightarrow> Inl err | None \<Rightarrow> Inr employee)"

definition IsTerminated :: "Employee \<Rightarrow> bool" where
  "IsTerminated e = (Status e = EmployeeStatusTerminated)"

text \<open>
  The mutating methods have a pointer receiver. Each checks first and assigns last, so a
  call that fails leaves the employee as it was: the model returns the error, or the
  employee after the assignments.
\<close>

definition ChangeStatus :: "clock \<Rightarrow> Employee \<Rightarrow> EmployeeStatus \<Rightarrow> error + Employee" where
  "ChangeStatus clk e newStatus =
     (case ValidateTransition (Status e) newStatus of
        Some err \<Rightarrow> Inl err
      | None \<Rightarrow> Inr (e\<lparr>Status := newStatus, UpdatedAt := Now clk\<rparr>))"

definition UpdateSalary :: "clock \<Rightarrow> Employee \<Rightarrow> float64 \<Rightarrow> error + Employee" where
  "UpdateSalary clk e newSalary =
     (case validateSalary newSalary of
        Some err \<Rightarrow> Inl err
      | None \<Rightarrow>
          if IsTerminated e
          then Inl (ErrorString ''cannot update salary for terminated employees'')
          else Inr (e\<lparr>Salary := newSalary, UpdatedAt := Now clk\<rparr>))"

definition UpdateContactInfo :: "clock \<Rightarrow> Employee \<Rightarrow> string \<Rightarrow> string \<Rightarrow> error + Employee" where
  "UpdateContactInfo clk e email phone =
     (case first_error [validateEmail email, if phone \<noteq> [] then validatePhone phone else None] of
        Some err \<Rightarrow> Inl err
      | None \<Rightarrow> Inr (e\<lparr>Email := email, Phone := phone, UpdatedAt := Now clk\<rparr>))"

definition UpdatePosition ::
  "golib \<Rightarrow> clock \<Rightarrow> Employee \<Rightarrow> string \<Rightarrow> string \<Rightarrow> error + Employee" where
  "UpdatePosition lib clk e position department =
     (case first_error [validatePosition lib position, validateDepartment lib department] of
        Some err \<Rightarrow> Inl err
      | None \<Rightarrow>
          if IsTerminated e
          then Inl (ErrorString ''cannot update position for terminated employees'')
          else Inr (e\<lparr>Position := position, Department := department, UpdatedAt := Now clk\<rparr>))"

definition UpdateAddress :: "golib \<Rightarrow> clock \<Rightarrow> Employee \<Rightarrow> Address option \<Rightarrow> error + Employee" where
  "UpdateAddress lib clk e address =
     (case (case address of None \<Rightarrow> None | Some a \<Rightarrow> Address_Validate lib a) of
        Some err \<Rightarrow> Inl (Wrapped ''invalid address'' err)
      | None \<Rightarrow> Inr (e\<lparr>Address := address, UpdatedAt := Now clk\<rparr>))"

definition SetManager :: "clock \<Rightarrow> Employee \<Rightarrow> uuid option \<Rightarrow> error + Employee" where
  "SetManager clk e managerID =
     (if (case managerID of None \<Rightarrow> False | Some m \<Rightarrow> m = ID e)
      then Inl (ErrorString ''employee cannot be their own manager'')
      else Inr (e\<lparr>ManagerID := managerID, UpdatedAt := Now clk\<rparr>))"

section \<open>AuditLog\<close>

record AuditLog =
  AuditLog_ID :: uuid
  EmployeeID :: uuid
  Operation :: string
  UserID :: string
  Timestamp :: gotime
  OldValues :: gomap
  NewValues :: gomap
  IPAddress :: string
  UserAgent :: string

definition OperationCreateEmployee :: string where
  "OperationCreateEmployee = ''employee:create''"

definition OperationUpdateEmployee :: string where
  "OperationUpdateEmployee = ''employee:update''"

definition OperationChangeStatus :: string where
  "OperationChangeStatus = ''employee:change_status''"

definition OperationUpdateSalary :: string where
  "OperationUpdateSalary = ''employee:update_salary''"

text \<open>The loop of \<open>isValidOperationFormat\<close> compares each rune with ASCII ranges, so it
  is decided on the bytes.\<close>

definition isValidOperationFormat :: "string \<Rightarrow> bool" where
  "isValidOperationFormat operation =
     list_all (in_class (lower_az @ upper_AZ @ digits_09 @ ''_:'')) operation"

definition validateOperation :: "string \<Rightarrow> error option" where
  "validateOperation operation =
     first_error
      [check (operation = []) ''operation cannot be empty'',
       check (length operation > 50) ''operation cannot exceed 50 characters'',
       check (\<not> isValidOperationFormat operation) ''operation contains invalid characters'']"

definition validateIPAddress :: "string \<Rightarrow> error option" where
  "validateIPAddress ip =
     first_error
      [check (ip = []) ''IP address cannot be empty'',
       check (length ip > 45) ''IP address is too long'',
       check (length ip < 7) ''IP address is too short'']"

text \<open>\<open>AuditLog.Validate\<close> on a receiver that is not nil.\<close>

definition AuditLog_Validate :: "AuditLog \<Rightarrow> error option" where
  "AuditLog_Validate a =
     first_error
      [check (AuditLog_ID a = uuid_Nil) ''audit log ID cannot be empty'',
       check (EmployeeID a = uuid_Nil) ''employee ID cannot be empty'',
       validateOperation (Operation a),
       check (UserID a = []) ''user ID cannot be empty'',
       check (IsZero (Timestamp a)) ''timestamp cannot be empty'',
       check (IPAddress a = []) ''IP address cannot be empty'',
       map_option (Wrapped ''invalid IP address'') (validateIPAddress (IPAddress a)),
       check (length (OldValues a) = 0 \<and> length (NewValues a) = 0)
         ''at least one of old values or new values must be provided'']"

text \<open>\<open>NewAuditLog\<close>; \<open>now\<close> is what \<open>time.Now()\<close> returns and \<open>newid\<close> what
  \<open>uuid.New()\<close> returns.\<close>

definition NewAuditLog ::
  "gotime \<Rightarrow> uuid \<Rightarrow> uuid \<Rightarrow> string \<Rightarrow> string \<Rightarrow> gomap \<Rightarrow> gomap \<Rightarrow> string \<Rightarrow> string \<Rightarrow>
   error + AuditLog" where
  "NewAuditLog now newid employeeID operation userID oldValues newValues ipAddress userAgent =
     (let auditLog = \<lparr>AuditLog_ID = newid, EmployeeID = employeeID, Operation = operation,
                      UserID = userID, Timestamp = now, OldValues = oldValues,
                      NewValues = newValues, IPAddress = ipAddress, UserAgent = userAgent\<rparr>
      in case AuditLog_Validate auditLog of Some err \<Rightarrow> Inl err | None \<Rightarrow> Inr auditLog)"

definition IsCreation :: "AuditLog \<Rightarrow> bool" where
  "IsCreation a = (length (OldValues a) = 0 \<and> length (NewValues a) > 0)"

definition IsDeletion :: "AuditLog \<Rightarrow> bool" where
  "IsDeletion a = (length (NewValues a) = 0 \<and> length (OldValues a) > 0)"

definition IsUpdate :: "AuditLog \<Rightarrow> bool" where
  "IsUpdate a = (length (OldValues a) > 0 \<and> length (NewValues a) > 0)"

text \<open>
  \<open>a == b\<close> on two interface values: false when the dynamic types differ, the comparison
  of the values when the type is comparable, and a run-time panic when both hold a slice
  or both hold a map. Two floating point values are compared as such (a NaN differs from
  itself); two times are compared as instants.
\<close>

datatype gotype = TString | TFloat64 | TInt | TBool | TUUID | TTime | TStringSlice | TMap

fun TypeOf :: "gvalue \<Rightarrow> gotype option" where
  "TypeOf VNil = None"
| "TypeOf (VString s) = Some TString"
| "TypeOf (VFloat x) = Some TFloat64"
| "TypeOf (VInt i) = Some TInt"
| "TypeOf (VBool b) = Some TBool"
| "TypeOf (VUUID u) = Some TUUID"
| "TypeOf (VTime t) = Some TTime"
| "TypeOf (VStrings ss) = Some TStringSlice"
| "TypeOf (VMap m) = Some TMap"

definition comparable :: "gotype \<Rightarrow> bool" where
  "comparable t = (t \<noteq> TStringSlice \<and> t \<noteq> TMap)"

definition same_value :: "gvalue \<Rightarrow> gvalue \<Rightarrow> bool" where
  "same_value a b =
     (case a of
        VFloat x \<Rightarrow> (case b of VFloat y \<Rightarrow> f64_eq x y | _ \<Rightarrow> False)
      | _ \<Rightarrow> a = b)"

definition interface_eq :: "gvalue \<Rightarrow> gvalue \<Rightarrow> bool exec" where
  "interface_eq a b =
     (if TypeOf a \<noteq> TypeOf b then Done False
      else case TypeOf a of
             None \<Rightarrow> Done True
           | Some t \<Rightarrow> if comparable t then Done (same_value a b) else Fault UncomparableType)"

fun is_string :: "gvalue \<Rightarrow> bool" where
  "is_string (VString s) = True"
| "is_string _ = False"

definition valuesEqual :: "golib \<Rightarrow> gvalue \<Rightarrow> gvalue \<Rightarrow> bool exec" where
  "valuesEqual lib a b =
     (case interface_eq a b of
        Fault f \<Rightarrow> Fault f
      | Done True \<Rightarrow> Done True
      | Done False \<Rightarrow>
          if is_string a \<and> is_string b then Done (a = b)
          else if a \<noteq> VNil \<and> b \<noteq> VNil then Done (Sprintf_v lib a = Sprintf_v lib b)
          else Done False)"

text \<open>An index expression \<open>m[k]\<close> on a map, with the nil interface for a missing key.\<close>

definition index_map :: "gomap \<Rightarrow> string \<Rightarrow> gvalue" where
  "index_map m k = (case map_of m k of None \<Rightarrow> VNil | Some v \<Rightarrow> v)"

text \<open>The first loop of \<open>GetChangedFields\<close>, over the keys of \<open>OldValues\<close> that are
  still to visit.\<close>

fun changed_in_both ::
  "golib \<Rightarrow> gomap \<Rightarrow> gomap \<Rightarrow> string list \<Rightarrow> string list \<Rightarrow> string list exec" where
  "changed_in_both lib old new [] changedFields = Done changedFields"
| "changed_in_both lib old new (field # rest) changedFields =
     (case map_of new field of
        None \<Rightarrow> changed_in_both lib old new rest changedFields
      | Some newValue \<Rightarrow>
          (case valuesEqual lib (index_map old field) newValue of
             Fault f \<Rightarrow> Fault f
           | Done equal \<Rightarrow>
               changed_in_both lib old new rest
                 (if \<not> equal then changedFields @ [field] else changedFields)))"

definition GetChangedFields :: "golib \<Rightarrow> AuditLog \<Rightarrow> string list exec" where
  "GetChangedFields lib a =
     (case changed_in_both lib (OldValues a) (NewValues a) (map fst (OldValues a)) [] of
        Fault f \<Rightarrow> Fault f
      | Done changedFields \<Rightarrow>
          Done (changedFields @
                filter (\<lambda>field. map_of (OldValues a) field = None) (map fst (NewValues a))))"

text \<open>A key of both maps whose two values differ under \<open>valuesEqual\<close>.\<close>

definition differs :: "golib \<Rightarrow> gomap \<Rightarrow> gomap \<Rightarrow> string \<Rightarrow> bool" where
  "differs lib old new k =
     (case map_of new k of
        None \<Rightarrow> False
      | Some newValue \<Rightarrow> valuesEqual lib (index_map old k) newValue = Done False)"

text \<open>A key of both maps on whose two values \<open>valuesEqual\<close> panics.\<close>

definition clashes :: "golib \<Rightarrow> gomap \<Rightarrow> gomap \<Rightarrow> string \<Rightarrow> bool" where
  "clashes lib old new k =
     (case map_of new k of
        None \<Rightarrow> False
      | Some newValue \<Rightarrow> valuesEqual lib (index_map old k) newValue = Fault UncomparableType)"

section \<open>Domain events\<close>

record BaseDomainEvent =
  Event_ID :: uuid
  AggregateID :: uuid
  Type :: string
  Event_Timestamp :: gotime
  Version :: int
  Data :: gomap

definition NewBaseDomainEvent :: "gotime \<Rightarrow> uuid \<Rightarrow> uuid \<Rightarrow> string \<Rightarrow> gomap \<Rightarrow> BaseDomainEvent" where
  "NewBaseDomainEvent now newid aggregateID eventType data =
     \<lparr>Event_ID = newid, AggregateID = aggregateID, Type = eventType, Event_Timestamp = now,
      Version = 1, Data = data\<rparr>"

record EmployeeCreatedEvent =
  Created_Base :: BaseDomainEvent
  Created_Employee :: Employee

definition NewEmployeeCreatedEvent :: "gotime \<Rightarrow> uuid \<Rightarrow> Employee \<Rightarrow> EmployeeCreatedEvent" where
  "NewEmployeeCreatedEvent now newid employee =
     (let data = [(''employeeId'', VUUID (ID employee)),
                  (''firstName'', VString (FirstName employee)),
                  (''lastName'', VString (LastName employee)),
                  (''email'', VString (Email employee)),
                  (''department'', VString (Department employee)),
                  (''position'', VString (Position employee)),
                  (''salary'', VFloat (Salary employee)),
                  (''status'', VString (Status employee)),
                  (''hasManager'', VBool (ManagerID employee \<noteq> None)),
                  (''hasAddress'', VBool (Address employee \<noteq> None))]
      in \<lparr>Created_Base = NewBaseDomainEvent now newid (ID employee) ''employee.created'' data,
          Created_Employee = employee\<rparr>)"

record EmployeeStatusChangedEvent =
  StatusChanged_Base :: BaseDomainEvent
  StatusChanged_EmployeeID :: uuid
  OldStatus :: EmployeeStatus
  NewStatus :: EmployeeStatus
  StatusChanged_ChangedBy :: string

definition NewEmployeeStatusChangedEvent ::
  "gotime \<Rightarrow> uuid \<Rightarrow> uuid \<Rightarrow> EmployeeStatus \<Rightarrow> EmployeeStatus \<Rightarrow> string \<Rightarrow>
   EmployeeStatusChangedEvent" where
  "NewEmployeeStatusChangedEvent now newid employeeID oldStatus newStatus changedBy =
     (let data = [(''employeeId'', VUUID employeeID),
                  (''oldStatus'', VString oldStatus),
                  (''newStatus'', VString newStatus),
                  (''changedBy'', VString changedBy)]
      in \<lparr>StatusChanged_Base =
            NewBaseDomainEvent now newid employeeID ''employee.status_changed'' data,
          StatusChanged_EmployeeID = employeeID, OldStatus = oldStatus, NewStatus = newStatus,
          StatusChanged_ChangedBy = changedBy\<rparr>)"

record EmployeeSalaryChangedEvent =
  SalaryChanged_Base :: BaseDomainEvent
  SalaryChanged_EmployeeID :: uuid
  OldSalary :: float64
  NewSalary :: float64
  ChangeType :: string
  SalaryChanged_ChangedBy :: string

text \<open>The quotient of the payload's \<open>changePercent\<close> is computed with no guard on the
  divisor.\<close>

definition changePercent :: "float64 \<Rightarrow> float64 \<Rightarrow> float64 option" where
  "changePercent oldSalary newSalary =
     map_option (\<lambda>q. f64_mul q (Fin 100)) (f64_div (f64_sub newSalary oldSalary) oldSalary)"

definition NewEmployeeSalaryChangedEvent ::
  "gotime \<Rightarrow> uuid \<Rightarrow> uuid \<Rightarrow> float64 \<Rightarrow> float64 \<Rightarrow> string \<Rightarrow> EmployeeSalaryChangedEvent exec" where
  "NewEmployeeSalaryChangedEvent now newid employeeID oldSalary newSalary changedBy =
     (let changeType = (if f64_gt newSalary oldSalary then ''increase''
                        else if f64_lt newSalary oldSalary then ''decrease''
                        else ''same'')
      in case changePercent oldSalary newSalary of
           None \<Rightarrow> Fault FloatDivisionByZero
         | Some percent \<Rightarrow>
             (let data = [(''employeeId'', VUUID employeeID),
                          (''oldSalary'', VFloat oldSalary),
                          (''newSalary'', VFloat newSalary),
                          (''changeType'', VString changeType),
                          (''changeAmount'', VFloat (f64_sub newSalary oldSalary)),
                          (''changePercent'', VFloat percent),
                          (''changedBy'', VString changedBy)]
              in Done \<lparr>SalaryChanged_Base =
                         NewBaseDomainEvent now newid employeeID ''employee.salary_changed'' data,
                       SalaryChanged_EmployeeID = employeeID, OldSalary = oldSalary,
                       NewSalary = newSalary, ChangeType = changeType,
                       SalaryChanged_ChangedBy = changedBy\<rparr>))"

record EmployeeUpdatedEvent =
  Updated_Base :: BaseDomainEvent
  Updated_Employee :: Employee
  ChangedFields :: "string list"

definition NewEmployeeUpdatedEvent ::
  "gotime \<Rightarrow> uuid \<Rightarrow> Employee \<Rightarrow> string list \<Rightarrow> EmployeeUpdatedEvent" where
  "NewEmployeeUpdatedEvent now newid employee changedFields =
     (let data = [(''employeeId'', VUUID (ID employee)),
                  (''changedFields'', VStrings changedFields),
                  (''firstName'', VString (FirstName employee)),
                  (''lastName'', VString (LastName employee)),
                  (''email'', VString (Email employee)),
                  (''department'', VString (Department employee)),
                  (''position'', VString (Position employee)),
                  (''salary'', VFloat (Salary employee)),
                  (''status'', VString (Status employee))]
      in \<lparr>Updated_Base = NewBaseDomainEvent now newid (ID employee) ''employee.updated'' data,
          Updated_Employee = employee, ChangedFields = changedFields\<rparr>)"

record UserLoggedInEvent =
  LoggedIn_Base :: BaseDomainEvent
  LoggedIn_UserID :: uuid
  LoggedIn_Username :: string
  LoggedIn_IPAddress :: string
  LoggedIn_UserAgent :: string

definition NewUserLoggedInEvent ::
  "gotime \<Rightarrow> uuid \<Rightarrow> uuid \<Rightarrow> string \<Rightarrow> string \<Rightarrow> string \<Rightarrow> UserLoggedInEvent" where
  "NewUserLoggedInEvent now newid userID username ipAddress userAgent =
     (let data = [(''userId'', VUUID userID),
                  (''username'', VString username),
                  (''ipAddress'', VString ipAddress),
                  (''userAgent'', VString userAgent)]
      in \<lparr>LoggedIn_Base = NewBaseDomainEvent now newid userID ''user.logged_in'' data,
          LoggedIn_UserID = userID, LoggedIn_Username = username,
          LoggedIn_IPAddress = ipAddress, LoggedIn_UserAgent = userAgent\<rparr>)"

record AuditLogCreatedEvent =
  AuditCreated_Base :: BaseDomainEvent
  AuditCreated_AuditLog :: AuditLog

text \<open>\<open>NewAuditLogCreatedEvent\<close> takes a pointer: the first entry of its payload reads a
  field of the audit log, which panics on nil.\<close>

definition NewAuditLogCreatedEvent ::
  "golib \<Rightarrow> gotime \<Rightarrow> uuid \<Rightarrow> AuditLog option \<Rightarrow> AuditLogCreatedEvent exec" where
  "NewAuditLogCreatedEvent lib now newid auditLog =
     (case auditLog of
        None \<Rightarrow> Fault NilPointerDereference
      | Some a \<Rightarrow>
          (case GetChangedFields lib a of
             Fault f \<Rightarrow> Fault f
           | Done changedFields \<Rightarrow>
               (let data = [(''auditLogId'', VUUID (AuditLog_ID a)),
                            (''employeeId'', VUUID (EmployeeID a)),
                            (''operation'', VString (Operation a)),
                            (''userId'', VString (UserID a)),
                            (''ipAddress'', VString (IPAddress a)),
                            (''isCreation'', VBool (IsCreation a)),
                            (''isDeletion'', VBool (IsDeletion a)),
                            (''isUpdate'', VBool (IsUpdate a)),
                            (''changedFields'', VStrings changedFields)]
                in Done \<lparr>AuditCreated_Base =
                           NewBaseDomainEvent now newid (AuditLog_ID a) ''audit_log.created'' data,
                         AuditCreated_AuditLog = a\<rparr>)))"

text \<open>The interface \<open>DomainEvent\<close>, with the event structs that implement it.\<close>

datatype DomainEvent =
    EmployeeCreated EmployeeCreatedEvent
  | EmployeeUpdated EmployeeUpdatedEvent
  | EmployeeStatusChanged EmployeeStatusChangedEvent
  | EmployeeSalaryChanged EmployeeSalaryChangedEvent
  | UserLoggedIn UserLoggedInEvent
  | AuditLogCreated AuditLogCreatedEvent

fun base_of :: "DomainEvent \<Rightarrow> BaseDomainEvent" where
  "base_of (EmployeeCreated ev) = Created_Base ev"
| "base_of (EmployeeUpdated ev) = Updated_Base ev"
| "base_of (EmployeeStatusChanged ev) = StatusChanged_Base ev"
| "base_of (EmployeeSalaryChanged ev) = SalaryChanged_Base ev"
| "base_of (UserLoggedIn ev) = LoggedIn_Base ev"
| "base_of (AuditLogCreated ev) = AuditCreated_Base ev"

definition GetType :: "DomainEvent \<Rightarrow> string" where
  "GetType event = Type (base_of event)"

section \<open>EventDispatcher\<close>

text \<open>
  What the injected collaborators do is outside the domain layer: a handler, a repository
  and the event store act on a world \<open>'w\<close> that the model passes along, and return an
  error or nil. \<open>CanHandle\<close> is a predicate on the event type.
\<close>

record 'w EventHandler =
  Handle :: "DomainEvent \<Rightarrow> 'w \<Rightarrow> error option \<times> 'w"
  CanHandle :: "string \<Rightarrow> bool"

record 'w EventDispatcher =
  handlers :: "string \<Rightarrow> 'w EventHandler list option"

definition NewEventDispatcher :: "'w EventDispatcher" where
  "NewEventDispatcher = \<lparr>handlers = (\<lambda>eventType. None)\<rparr>"

text \<open>Indexing a map of slices with a missing key gives the nil slice.\<close>

definition RegisterHandler ::
  "'w EventDispatcher \<Rightarrow> string \<Rightarrow> 'w EventHandler \<Rightarrow> 'w EventDispatcher" where
  "RegisterHandler d eventType handler =
     d\<lparr>handlers := (handlers d)(eventType :=
          Some ((case handlers d eventType of None \<Rightarrow> [] | Some hs \<Rightarrow> hs) @ [handler]))\<rparr>"

text \<open>The loop of \<open>Dispatch\<close> over the handlers still to visit, with the errors
  collected so far.\<close>

fun dispatch_loop ::
  "'w EventHandler list \<Rightarrow> DomainEvent \<Rightarrow> error list \<Rightarrow> 'w \<Rightarrow> error list \<times> 'w" where
  "dispatch_loop [] event errs w = (errs, w)"
| "dispatch_loop (handler # hs) event errs w =
     (if CanHandle handler (GetType event)
      then (case Handle handler event w of
              (Some err, w') \<Rightarrow>
                dispatch_loop hs event
                  (errs @ [Wrapped (''handler failed for event '' @ GetType event) err]) w'
            | (None, w') \<Rightarrow> dispatch_loop hs event errs w')
      else dispatch_loop hs event errs w)"

definition Dispatch :: "'w EventDispatcher \<Rightarrow> DomainEvent \<Rightarrow> 'w \<Rightarrow> error option \<times> 'w" where
  "Dispatch d event w =
     (case handlers d (GetType event) of
        None \<Rightarrow> (None, w)
      | Some hs \<Rightarrow>
          (case dispatch_loop hs event [] w of
             (errs, w') \<Rightarrow>
               (if length errs > 0 then Some (DispatchFailed (length errs) errs) else None, w')))"

text \<open>
  The fan-out as the specification words it, to compare \<open>Dispatch\<close> with: every handler
  of a list is invoked in turn, whatever the handlers before it returned, and every result
  is kept.
\<close>

fun invoke_all ::
  "'w EventHandler list \<Rightarrow> DomainEvent \<Rightarrow> 'w \<Rightarrow> error option list \<times> 'w" where
  "invoke_all [] event w = ([], w)"
| "invoke_all (handler # hs) event w =
     (case Handle handler event w of
        (r, w') \<Rightarrow> (case invoke_all hs event w' of (rs, w'') \<Rightarrow> (r # rs, w'')))"

definition handler_errors :: "string \<Rightarrow> error option list \<Rightarrow> error list" where
  "handler_errors eventType rs =
     concat (map (\<lambda>r. case r of
                          None \<Rightarrow> []
                        | Some err \<Rightarrow> [Wrapped (''handler failed for event '' @ eventType) err])
               rs)"

section \<open>EmployeeService\<close>

text \<open>
  The service holds ports. Of each port the model has the methods the embedded
  operations call. \<open>GetByID\<close> returns an error, or the employee, or nil for none. The
  warnings that the service prints are not part of the model.
\<close>

record 'w EmployeeService =
  employeeRepo_Create :: "Employee \<Rightarrow> 'w \<Rightarrow> error option \<times> 'w"
  employeeRepo_GetByID :: "uuid \<Rightarrow> 'w \<Rightarrow> (error + Employee option) \<times> 'w"
  employeeRepo_Update :: "Employee \<Rightarrow> 'w \<Rightarrow> error option \<times> 'w"
  employeeRepo_ExistsByEmail :: "string \<Rightarrow> 'w \<Rightarrow> (error + bool) \<times> 'w"
  employeeRepo_ExistsByID :: "uuid \<Rightarrow> 'w \<Rightarrow> (error + bool) \<times> 'w"
  auditRepo_Create :: "AuditLog option \<Rightarrow> 'w \<Rightarrow> error option \<times> 'w"
  eventStore_SaveEvent :: "DomainEvent \<Rightarrow> 'w \<Rightarrow> error option \<times> 'w"
  eventDispatcher :: "'w EventDispatcher"

definition validateEmployeeCreation ::
  "'w EmployeeService \<Rightarrow> string \<Rightarrow> uuid option \<Rightarrow> 'w \<Rightarrow> error option \<times> 'w" where
  "validateEmployeeCreation s email managerID w =
     (case employeeRepo_ExistsByEmail s email w of
        (Inl err, w1) \<Rightarrow> (Some (Wrapped ''failed to check email uniqueness'' err), w1)
      | (Inr True, w1) \<Rightarrow> (Some ErrEmailAlreadyExists, w1)
      | (Inr False, w1) \<Rightarrow>
          (case managerID of
             None \<Rightarrow> (None, w1)
           | Some m \<Rightarrow>
               (case employeeRepo_ExistsByID s m w1 of
                  (Inl err, w2) \<Rightarrow> (Some (Wrapped ''failed to check manager existence'' err), w2)
                | (Inr False, w2) \<Rightarrow> (Some ErrManagerNotFound, w2)
                | (Inr True, w2) \<Rightarrow> (None, w2))))"

definition validateEmployeeUpdate ::
  "'w EmployeeService \<Rightarrow> Employee \<Rightarrow> 'w \<Rightarrow> error option \<times> 'w" where
  "validateEmployeeUpdate s employee w =
     (let manager_check = (\<lambda>w1.
            case ManagerID employee of
              None \<Rightarrow> (None, w1)
            | Some m \<Rightarrow>
                (case employeeRepo_ExistsByID s m w1 of
                   (Inl err, w2) \<Rightarrow> (Some (Wrapped ''failed to check manager existence'' err), w2)
                 | (Inr False, w2) \<Rightarrow> (Some ErrManagerNotFound, w2)
                 | (Inr True, w2) \<Rightarrow> (None, w2)))
      in case employeeRepo_ExistsByEmail s (Email employee) w of
           (Inl err, w1) \<Rightarrow> (Some (Wrapped ''failed to check email uniqueness'' err), w1)
         | (Inr False, w1) \<Rightarrow> manager_check w1
         | (Inr True, w1) \<Rightarrow>
             (case employeeRepo_GetByID s (ID employee) w1 of
                (Inl err, w2) \<Rightarrow> (Some (Wrapped ''failed to get existing employee'' err), w2)
              | (Inr None, w2) \<Rightarrow> (Some ErrEmailAlreadyExists, w2)
              | (Inr (Some existing), w2) \<Rightarrow>
                  if Email existing \<noteq> Email employee then (Some ErrEmailAlreadyExists, w2)
                  else manager_check w2))"

definition createEmployeeSnapshot :: "Employee \<Rightarrow> gomap" where
  "createEmployeeSnapshot employee =
     [(''id'', VUUID (ID employee)),
      (''firstName'', VString (FirstName employee)),
      (''lastName'', VString (LastName employee)),
      (''email'', VString (Email employee)),
      (''phone'', VString (Phone employee)),
      (''department'', VString (Department employee)),
      (''position'', VString (Position employee)),
      (''hireDate'', VTime (HireDate employee)),
      (''salary'', VFloat (Salary employee)),
      (''status'', VString (Status employee)),
      (''updatedAt'', VTime (UpdatedAt employee))]
     @ (case ManagerID employee of None \<Rightarrow> [] | Some m \<Rightarrow> [(''managerId'', VUUID m)])
     @ (case Address employee of
          None \<Rightarrow> []
        | Some a \<Rightarrow>
            [(''address'', VMap [(''street'', VString (Street a)),
                                (''city'', VString (City a)),
                                (''state'', VString (State a)),
                                (''postalCode'', VString (PostalCode a)),
                                (''country'', VString (Country a))])])"

text \<open>The \<open>createAuditLogFor...\<close> helpers return nil when \<open>NewAuditLog\<close> fails.\<close>

definition audit_or_nil :: "error + AuditLog \<Rightarrow> AuditLog option" where
  "audit_or_nil r = (case r of Inl err \<Rightarrow> None | Inr auditLog \<Rightarrow> Some auditLog)"

definition createAuditLogForCreation ::
  "gotime \<Rightarrow> uuid \<Rightarrow> Employee \<Rightarrow> string \<Rightarrow> string \<Rightarrow> string \<Rightarrow> AuditLog option" where
  "createAuditLogForCreation now newid employee userID ipAddress userAgent =
     (let newValues = createEmployeeSnapshot employee
      in audit_or_nil (NewAuditLog now newid (ID employee) OperationCreateEmployee userID
                         [] newValues ipAddress userAgent))"

definition createAuditLogForUpdate ::
  "gotime \<Rightarrow> uuid \<Rightarrow> Employee \<Rightarrow> gomap \<Rightarrow> gomap \<Rightarrow> string \<Rightarrow> string \<Rightarrow> string \<Rightarrow>
   AuditLog option" where
  "createAuditLogForUpdate now newid employee oldValues newValues userID ipAddress userAgent =
     audit_or_nil (NewAuditLog now newid (ID employee) OperationUpdateEmployee userID
                     oldValues newValues ipAddress userAgent)"

definition createAuditLogForStatusChange ::
  "gotime \<Rightarrow> uuid \<Rightarrow> Employee \<Rightarrow> EmployeeStatus \<Rightarrow> string \<Rightarrow> string \<Rightarrow> string \<Rightarrow>
   AuditLog option" where
  "createAuditLogForStatusChange now newid employee newStatus userID ipAddress userAgent =
     (let oldValues = [(''status'', VString (Status employee))];
          newValues = [(''status'', VString newStatus)]
      in audit_or_nil (NewAuditLog now newid (ID employee) OperationChangeStatus userID
                         oldValues newValues ipAddress userAgent))"

definition createAuditLogForSalaryChange ::
  "gotime \<Rightarrow> uuid \<Rightarrow> Employee \<Rightarrow> float64 \<Rightarrow> float64 \<Rightarrow> string \<Rightarrow> string \<Rightarrow> string \<Rightarrow>
   AuditLog option" where
  "createAuditLogForSalaryChange now newid employee oldSalary newSalary userID ipAddress
     userAgent =
     (let oldValues = [(''salary'', VFloat oldSalary)];
          newValues = [(''salary'', VFloat newSalary)]
      in audit_or_nil (NewAuditLog now newid (ID employee) OperationUpdateSalary userID
                         oldValues newValues ipAddress userAgent))"

text \<open>
  \<open>CreateEmployee\<close>. \<open>ids n\<close> is what the call of \<open>uuid.New()\<close> number \<open>n\<close> of the
  operation returns. The result is what the operation returns, or the fault that ends
  it, and the world the collaborators leave.
\<close>

definition CreateEmployee ::
  "'w EmployeeService \<Rightarrow> golib \<Rightarrow> clock \<Rightarrow> (nat \<Rightarrow> uuid) \<Rightarrow>
   string \<Rightarrow> string \<Rightarrow> string \<Rightarrow> string \<Rightarrow> string \<Rightarrow> string \<Rightarrow> gotime \<Rightarrow> float64 \<Rightarrow>
   uuid option \<Rightarrow> Address option \<Rightarrow> string \<Rightarrow> string \<Rightarrow> string \<Rightarrow> 'w \<Rightarrow>
   (error + Employee) exec \<times> 'w" where
  "CreateEmployee s lib clk ids firstName lastName email phone department position hireDate
     salary managerID address userID ipAddress userAgent w0 =
     (case validateEmployeeCreation s email managerID w0 of
        (Some err, w1) \<Rightarrow> (Done (Inl err), w1)
      | (None, w1) \<Rightarrow>
     (case NewEmployee lib clk (ids 0) firstName lastName email phone department position
             hireDate salary managerID address of
        Inl err \<Rightarrow> (Done (Inl (Wrapped ''failed to create employee'' err)), w1)
      | Inr employee \<Rightarrow>
     (case employeeRepo_Create s employee w1 of
        (Some err, w2) \<Rightarrow> (Done (Inl (Wrapped ''failed to save employee'' err)), w2)
      | (None, w2) \<Rightarrow>
     (let auditLog = createAuditLogForCreation (Now clk) (ids 1) employee userID ipAddress
                       userAgent
      in case auditRepo_Create s auditLog w2 of (audit_err, w3) \<Rightarrow>
     (let event = EmployeeCreated (NewEmployeeCreatedEvent (Now clk) (ids 2) employee)
      in case eventStore_SaveEvent s event w3 of (save_err, w4) \<Rightarrow>
     (case Dispatch (eventDispatcher s) event w4 of (dispatch_err, w5) \<Rightarrow>
     (case NewAuditLogCreatedEvent lib (Now clk) (ids 3) auditLog of
        Fault f \<Rightarrow> (Fault f, w5)
      | Done auditEvent \<Rightarrow>
     (case eventStore_SaveEvent s (AuditLogCreated auditEvent) w5 of (save_err2, w6) \<Rightarrow>
        (Done (Inr employee), w6)))))))))"

definition ChangeEmployeeStatus ::
  "'w EmployeeService \<Rightarrow> clock \<Rightarrow> (nat \<Rightarrow> uuid) \<Rightarrow> uuid \<Rightarrow> EmployeeStatus \<Rightarrow>
   string \<Rightarrow> string \<Rightarrow> string \<Rightarrow> 'w \<Rightarrow> (error + Employee) \<times> 'w" where
  "ChangeEmployeeStatus s clk ids empID newStatus userID ipAddress userAgent w0 =
     (case employeeRepo_GetByID s empID w0 of
        (Inl err, w1) \<Rightarrow> (Inl (Wrapped ''failed to get employee'' err), w1)
      | (Inr None, w1) \<Rightarrow> (Inl ErrEmployeeNotFound, w1)
      | (Inr (Some loaded), w1) \<Rightarrow>
     (case ChangeStatus clk loaded newStatus of
        Inl err \<Rightarrow> (Inl err, w1)
      | Inr employee \<Rightarrow>
     (case employeeRepo_Update s employee w1 of
        (Some err, w2) \<Rightarrow> (Inl (Wrapped ''failed to update employee'' err), w2)
      | (None, w2) \<Rightarrow>
     (let auditLog = createAuditLogForStatusChange (Now clk) (ids 0) employee newStatus userID
                       ipAddress userAgent
      in case auditRepo_Create s auditLog w2 of (audit_err, w3) \<Rightarrow>
     (let event = EmployeeStatusChanged
                    (NewEmployeeStatusChangedEvent (Now clk) (ids 1) empID (Status employee)
                       newStatus userID)
      in case eventStore_SaveEvent s event w3 of (save_err, w4) \<Rightarrow>
     (case Dispatch (eventDispatcher s) event w4 of (dispatch_err, w5) \<Rightarrow>
        (Inr employee, w5)))))))"

definition UpdateEmployeeSalary ::
  "'w EmployeeService \<Rightarrow> clock \<Rightarrow> (nat \<Rightarrow> uuid) \<Rightarrow> uuid \<Rightarrow> float64 \<Rightarrow>
   string \<Rightarrow> string \<Rightarrow> string \<Rightarrow> 'w \<Rightarrow> (error + Employee) exec \<times> 'w" where
  "UpdateEmployeeSalary s clk ids empID newSalary userID ipAddress userAgent w0 =
     (case employeeRepo_GetByID s empID w0 of
        (Inl err, w1) \<Rightarrow> (Done (Inl (Wrapped ''failed to get employee'' err)), w1)
      | (Inr None, w1) \<Rightarrow> (Done (Inl ErrEmployeeNotFound), w1)
      | (Inr (Some loaded), w1) \<Rightarrow>
     (let oldSalary = Salary loaded
      in case UpdateSalary clk loaded newSalary of
        Inl err \<Rightarrow> (Done (Inl err), w1)
      | Inr employee \<Rightarrow>
     (case employeeRepo_Update s employee w1 of
        (Some err, w2) \<Rightarrow> (Done (Inl (Wrapped ''failed to update employee'' err)), w2)
      | (None, w2) \<Rightarrow>
     (let auditLog = createAuditLogForSalaryChange (Now clk) (ids 0) employee oldSalary
                       newSalary userID ipAddress userAgent
      in case auditRepo_Create s auditLog w2 of (audit_err, w3) \<Rightarrow>
     (case NewEmployeeSalaryChangedEvent (Now clk) (ids 1) empID oldSalary newSalary userID of
        Fault f \<Rightarrow> (Fault f, w3)
      | Done salaryEvent \<Rightarrow>
     (let event = EmployeeSalaryChanged salaryEvent
      in case eventStore_SaveEvent s event w3 of (save_err, w4) \<Rightarrow>
     (case Dispatch (eventDispatcher s) event w4 of (dispatch_err, w5) \<Rightarrow>
        (Done (Inr employee), w5))))))))"

text \<open>The type assertions \<open>value.(string)\<close>, \<open>value.(float64)\<close> and
  \<open>value.(map[string]interface{})\<close>.\<close>

fun as_string :: "gvalue \<Rightarrow> string option" where
  "as_string (VString s) = Some s"
| "as_string _ = None"

fun as_float64 :: "gvalue \<Rightarrow> float64 option" where
  "as_float64 (VFloat x) = Some x"
| "as_float64 _ = None"

fun as_map :: "gvalue \<Rightarrow> gomap option" where
  "as_map (VMap m) = Some m"
| "as_map _ = None"

text \<open>\<open>data[k].(string)\<close> with the second result dropped: the empty string when the
  assertion fails.\<close>

definition string_field :: "gomap \<Rightarrow> string \<Rightarrow> string" where
  "string_field data k = (case as_string (index_map data k) of None \<Rightarrow> [] | Some v \<Rightarrow> v)"

definition parseAddress :: "golib \<Rightarrow> gomap \<Rightarrow> error + Address" where
  "parseAddress lib data =
     NewAddress lib (string_field data ''street'') (string_field data ''city'')
       (string_field data ''state'') (string_field data ''postalCode'')
       (string_field data ''country'')"

text \<open>The loop of \<open>applyEmployeeUpdates\<close> over the entries of \<open>updates\<close> still to
  visit; an entry whose key is not one of the nine, or whose value has another type, is
  skipped.\<close>

fun apply_updates_loop ::
  "golib \<Rightarrow> Employee \<Rightarrow> gomap \<Rightarrow> string list \<Rightarrow> error + Employee \<times> string list" where
  "apply_updates_loop lib employee [] changedFields = Inr (employee, changedFields)"
| "apply_updates_loop lib employee ((field, v) # rest) changedFields =
     (if field = ''firstName'' then
        (case as_string v of
           Some val \<Rightarrow> apply_updates_loop lib (employee\<lparr>FirstName := val\<rparr>) rest
                         (changedFields @ [''firstName''])
         | None \<Rightarrow> apply_updates_loop lib employee rest changedFields)
      else if field = ''lastName'' then
        (case as_string v of
           Some val \<Rightarrow> apply_updates_loop lib (employee\<lparr>LastName := val\<rparr>) rest
                         (changedFields @ [''lastName''])
         | None \<Rightarrow> apply_updates_loop lib employee rest changedFields)
      else if field = ''email'' then
        (case as_string v of
           Some val \<Rightarrow> apply_updates_loop lib (employee\<lparr>Email := val\<rparr>) rest
                         (changedFields @ [''email''])
         | None \<Rightarrow> apply_updates_loop lib employee rest changedFields)
      else if field = ''phone'' then
        (case as_string v of
           Some val \<Rightarrow> apply_updates_loop lib (employee\<lparr>Phone := val\<rparr>) rest
                         (changedFields @ [''phone''])
         | None \<Rightarrow> apply_updates_loop lib employee rest changedFields)
      else if field = ''department'' then
        (case as_string v of
           Some val \<Rightarrow> apply_updates_loop lib (employee\<lparr>Department := val\<rparr>) rest
                         (changedFields @ [''department''])
         | None \<Rightarrow> apply_updates_loop lib employee rest changedFields)
      else if field = ''position'' then
        (case as_string v of
           Some val \<Rightarrow> apply_updates_loop lib (employee\<lparr>Position := val\<rparr>) rest
                         (changedFields @ [''position''])
         | None \<Rightarrow> apply_updates_loop lib employee rest changedFields)
      else if field = ''salary'' then
        (case as_float64 v of
           Some val \<Rightarrow> apply_updates_loop lib (employee\<lparr>Salary := val\<rparr>) rest
                         (changedFields @ [''salary''])
         | None \<Rightarrow> apply_updates_loop lib employee rest changedFields)
      else if field = ''managerId'' then
        (case as_string v of
           Some val \<Rightarrow>
             if val = [] then
               apply_updates_loop lib (employee\<lparr>ManagerID := None\<rparr>) rest
                 (changedFields @ [''managerId''])
             else
               (case uuid_Parse lib val of
                  Inl err \<Rightarrow> Inl (Wrapped ''invalid manager ID'' err)
                | Inr parsed \<Rightarrow>
                    apply_updates_loop lib (employee\<lparr>ManagerID := Some parsed\<rparr>) rest
                      (changedFields @ [''managerId'']))
         | None \<Rightarrow> apply_updates_loop lib employee rest changedFields)
      else if field = ''address'' then
        (case as_map v of
           Some val \<Rightarrow>
             (case parseAddress lib val of
                Inl err \<Rightarrow> Inl (Wrapped ''invalid address'' err)
              | Inr address \<Rightarrow>
                  apply_updates_loop lib (employee\<lparr>Address := Some address\<rparr>) rest
                    (changedFields @ [''address'']))
         | None \<Rightarrow> apply_updates_loop lib employee rest changedFields)
      else apply_updates_loop lib employee rest changedFields)"

definition applyEmployeeUpdates ::
  "golib \<Rightarrow> clock \<Rightarrow> Employee \<Rightarrow> gomap \<Rightarrow> error + Employee \<times> string list" where
  "applyEmployeeUpdates lib clk employee updates =
     (case apply_updates_loop lib employee updates [] of
        Inl err \<Rightarrow> Inl err
      | Inr (updated, changedFields) \<Rightarrow> Inr (updated\<lparr>UpdatedAt := Now clk\<rparr>, changedFields))"

definition UpdateEmployee ::
  "'w EmployeeService \<Rightarrow> golib \<Rightarrow> clock \<Rightarrow> (nat \<Rightarrow> uuid) \<Rightarrow> uuid \<Rightarrow> gomap \<Rightarrow>
   string \<Rightarrow> string \<Rightarrow> string \<Rightarrow> 'w \<Rightarrow> (error + Employee) \<times> 'w" where
  "UpdateEmployee s lib clk ids empID updates userID ipAddress userAgent w0 =
     (case employeeRepo_GetByID s empID w0 of
        (Inl err, w1) \<Rightarrow> (Inl (Wrapped ''failed to get employee'' err), w1)
      | (Inr None, w1) \<Rightarrow> (Inl ErrEmployeeNotFound, w1)
      | (Inr (Some loaded), w1) \<Rightarrow>
     (let oldValues = createEmployeeSnapshot loaded
      in case applyEmployeeUpdates lib clk loaded updates of
        Inl err \<Rightarrow> (Inl err, w1)
      | Inr (employee, changedFields) \<Rightarrow>
     (case validateEmployeeUpdate s employee w1 of
        (Some err, w2) \<Rightarrow> (Inl err, w2)
      | (None, w2) \<Rightarrow>
     (case employeeRepo_Update s employee w2 of
        (Some err, w3) \<Rightarrow> (Inl (Wrapped ''failed to update employee'' err), w3)
      | (None, w3) \<Rightarrow>
     (let newValues = createEmployeeSnapshot employee;
          auditLog = createAuditLogForUpdate (Now clk) (ids 0) employee oldValues newValues
                       userID ipAddress userAgent
      in case auditRepo_Create s auditLog w3 of (audit_err, w4) \<Rightarrow>
     (let event = EmployeeUpdated
                    (NewEmployeeUpdatedEvent (Now clk) (ids 1) employee changedFields)
      in case eventStore_SaveEvent s event w4 of (save_err, w5) \<Rightarrow>
     (case Dispatch (eventDispatcher s) event w5 of (dispatch_err, w6) \<Rightarrow>
        (Inr employee, w6))))))))"

section \<open>User and UserService\<close>

record User =
  User_ID :: uuid
  Username :: string
  User_Email :: string
  Password :: string
  Role :: string
  IsActive :: bool
  LastLogin :: "gotime option"
  User_CreatedAt :: gotime
  User_UpdatedAt :: gotime

definition CheckPassword :: "golib \<Rightarrow> string \<Rightarrow> string \<Rightarrow> bool" where
  "CheckPassword lib password hash = CompareHashAndPassword lib hash password"

definition Authenticate :: "golib \<Rightarrow> User \<Rightarrow> string \<Rightarrow> bool" where
  "Authenticate lib u password =
     (if \<not> IsActive u then False else CheckPassword lib password (Password u))"

definition UpdateLastLogin :: "clock \<Rightarrow> User \<Rightarrow> User" where
  "UpdateLastLogin clk u = u\<lparr>LastLogin := Some (Now clk), User_UpdatedAt := Now clk\<rparr>"

record 'w UserService =
  userRepo_FindByUsername :: "string \<Rightarrow> 'w \<Rightarrow> (error + User option) \<times> 'w"
  userRepo_UpdateLastLogin :: "uuid \<Rightarrow> 'w \<Rightarrow> error option \<times> 'w"
  user_eventStore_SaveEvent :: "DomainEvent \<Rightarrow> 'w \<Rightarrow> error option \<times> 'w"
  user_eventDispatcher :: "'w EventDispatcher"

definition AuthenticateUser ::
  "'w UserService \<Rightarrow> golib \<Rightarrow> clock \<Rightarrow> (nat \<Rightarrow> uuid) \<Rightarrow> string \<Rightarrow> string \<Rightarrow>
   string \<Rightarrow> string \<Rightarrow> 'w \<Rightarrow> (error + User) \<times> 'w" where
  "AuthenticateUser s lib clk ids username password ipAddress userAgent w0 =
     (case userRepo_FindByUsername s username w0 of
        (Inl err, w1) \<Rightarrow> (Inl (Wrapped ''failed to find user'' err), w1)
      | (Inr None, w1) \<Rightarrow> (Inl ErrInvalidCredentials, w1)
      | (Inr (Some found), w1) \<Rightarrow>
          if \<not> IsActive found then (Inl ErrUserNotActive, w1)
          else if \<not> Authenticate lib found password then (Inl ErrInvalidCredentials, w1)
          else
     (let user = UpdateLastLogin clk found
      in case userRepo_UpdateLastLogin s (User_ID user) w1 of (login_err, w2) \<Rightarrow>
     (let event = UserLoggedIn
                    (NewUserLoggedInEvent (Now clk) (ids 0) (User_ID user) username ipAddress
                       userAgent)
      in case user_eventStore_SaveEvent s event w2 of (save_err, w3) \<Rightarrow>
     (case Dispatch (user_eventDispatcher s) event w3 of (dispatch_err, w4) \<Rightarrow>
        (Inr user, w4)))))"

section \<open>Concrete collaborators and inputs\<close>

text \<open>
  One library to run the operations with. Its Unicode functions are Go's on ASCII
  text; \<open>Sprintf_v\<close> is Go's on nil, strings and booleans; \<open>uuid_Parse\<close> reads the
  canonical form of 36 characters only; the password check stands for bcrypt, the hash of
  a password being the password after \<open>hash:\<close>. No run below formats a value
  other than a string.
\<close>

definition hex_value :: "char \<Rightarrow> nat" where
  "hex_value c =
     (if in_class digits_09 c then of_char c - 48
      else if in_class ''abcdef'' c then of_char c - 87
      else of_char c - 55)"

definition parse_canonical_uuid :: "string \<Rightarrow> error + uuid" where
  "parse_canonical_uuid s =
     (if length s = 36 \<and> s ! 8 = CHR ''-'' \<and> s ! 13 = CHR ''-'' \<and> s ! 18 = CHR ''-'' \<and>
         s ! 23 = CHR ''-'' \<and>
         length (filter (in_class (digits_09 @ ''abcdefABCDEF'')) s) = 32
      then Inr (foldl (\<lambda>n c. 16 * n + hex_value c) 0 (filter (\<lambda>c. c \<noteq> CHR ''-'') s))
      else Inl (ErrorString ''invalid UUID format''))"

definition format_plain :: "gvalue \<Rightarrow> string" where
  "format_plain v =
     (case v of
        VNil \<Rightarrow> ''<nil>''
      | VString s \<Rightarrow> s
      | VBool b \<Rightarrow> (if b then ''true'' else ''false'')
      | _ \<Rightarrow> ''?'')"

definition ascii_space :: string where
  "ascii_space = [CHR 0x09, CHR 0x0A, CHR 0x0B, CHR 0x0C, CHR 0x0D, CHR '' '']"

definition ascii_lib :: golib where
  "ascii_lib =
     \<lparr>runes = map of_char,
      IsLetter = (\<lambda>r. (65 \<le> r \<and> r \<le> 90) \<or> (97 \<le> r \<and> r \<le> 122)),
      IsSpace = (\<lambda>r. (9 \<le> r \<and> r \<le> 13) \<or> r = 32),
      ToUpper = map (\<lambda>c. if in_class lower_az c then char_of (of_char c - (32::nat)) else c),
      TrimSpace = (\<lambda>s. rev (dropWhile (in_class ascii_space)
                              (rev (dropWhile (in_class ascii_space) s)))),
      Sprintf_v = format_plain,
      uuid_Parse = parse_canonical_uuid,
      CompareHashAndPassword = (\<lambda>hash password. hash = ''hash:'' @ password)\<rparr>"

definition clock0 :: clock where
  "clock0 = \<lparr>Now = 2000, Now_minus_50y = 500\<rparr>"

definition ids0 :: "nat \<Rightarrow> uuid" where
  "ids0 n = 100 + n"

definition john :: Employee where
  "john = \<lparr>ID = 7, FirstName = ''John'', LastName = ''Doe'', Email = ''john.doe@example.com'',
            Phone = ''555-123-4567'', Department = ''Engineering'',
            Position = ''Software Engineer'', HireDate = 1000, Salary = Fin 75000,
            Status = EmployeeStatusActive, ManagerID = None, Address = None,
            CreatedAt = 1000, UpdatedAt = 1000\<rparr>"

definition main_street :: Address where
  "main_street = \<lparr>Street = ''123 Main St'', City = ''Anytown'', State = ''CA'',
                   PostalCode = ''12345'', Country = ''USA''\<rparr>"

definition jane :: Employee where
  "jane = \<lparr>ID = 8, FirstName = ''Jane'', LastName = ''Roe'', Email = ''jane.roe@example.com'',
            Phone = [], Department = ''Research'', Position = ''Analyst'',
            HireDate = 1200, Salary = Fin 50000, Status = EmployeeStatusActive,
            ManagerID = None, Address = Some main_street,
            CreatedAt = 1200, UpdatedAt = 1200\<rparr>"

definition status_log :: AuditLog where
  "status_log = \<lparr>AuditLog_ID = 100, EmployeeID = 7, Operation = OperationChangeStatus,
                  UserID = ''admin'', Timestamp = 2000,
                  OldValues = [(''status'', VString ''ACTIVE'')],
                  NewValues = [(''status'', VString ''ON_LEAVE'')],
                  IPAddress = ''192.168.1.1'', UserAgent = ''agent''\<rparr>"

text \<open>
  An in-memory implementation of the ports: the world is the stored employees, and the
  audit logs and events in the order in which they were handed over. \<open>failing_channels\<close>
  is the same service with an audit log repository and an event store that fail, and a
  dispatcher with one handler, which fails.
\<close>

record memory =
  employees :: "Employee list"
  audit_logs :: "AuditLog option list"
  stored_events :: "DomainEvent list"

definition memory_service :: "memory EmployeeService" where
  "memory_service =
     \<lparr>employeeRepo_Create = (\<lambda>e w. (None, w\<lparr>employees := employees w @ [e]\<rparr>)),
      employeeRepo_GetByID = (\<lambda>i w. (Inr (find (\<lambda>e. ID e = i) (employees w)), w)),
      employeeRepo_Update =
        (\<lambda>e w. (None, w\<lparr>employees := map (\<lambda>x. if ID x = ID e then e else x) (employees w)\<rparr>)),
      employeeRepo_ExistsByEmail = (\<lambda>m w. (Inr (list_ex (\<lambda>e. Email e = m) (employees w)), w)),
      employeeRepo_ExistsByID = (\<lambda>i w. (Inr (list_ex (\<lambda>e. ID e = i) (employees w)), w)),
      auditRepo_Create = (\<lambda>a w. (None, w\<lparr>audit_logs := audit_logs w @ [a]\<rparr>)),
      eventStore_SaveEvent = (\<lambda>ev w. (None, w\<lparr>stored_events := stored_events w @ [ev]\<rparr>)),
      eventDispatcher = NewEventDispatcher\<rparr>"

definition failing_handler :: "memory EventHandler" where
  "failing_handler =
     \<lparr>Handle = (\<lambda>ev w. (Some (ErrorString ''handler is down''), w)),
      CanHandle = (\<lambda>eventType. True)\<rparr>"

definition failing_channels :: "memory EmployeeService" where
  "failing_channels =
     memory_service
       \<lparr>auditRepo_Create := (\<lambda>a w. (Some (ErrorString ''audit store is down''), w)),
        eventStore_SaveEvent := (\<lambda>ev w. (Some (ErrorString ''event store is down''), w)),
        eventDispatcher := RegisterHandler NewEventDispatcher ''employee.created''
                             failing_handler\<rparr>"

text \<open>The audit log that \<open>UpdateEmployee\<close> builds when the salary of \<open>jane\<close>, who has
  an address, is raised to 60000.\<close>

definition jane_raise_log :: AuditLog where
  "jane_raise_log =
     \<lparr>AuditLog_ID = 100, EmployeeID = 8, Operation = OperationUpdateEmployee,
      UserID = ''admin'', Timestamp = 2000,
      OldValues = createEmployeeSnapshot jane,
      NewValues = createEmployeeSnapshot (jane\<lparr>Salary := Fin 60000, UpdatedAt := 2000\<rparr>),
      IPAddress = ''192.168.1.1'', UserAgent = ''agent''\<rparr>"

text \<open>
  Three handlers that write their name into a log, the world of this example: the first
  fails, the second cannot handle the type of a creation, the third succeeds.
\<close>

definition logging_handler :: "string \<Rightarrow> bool \<Rightarrow> error option \<Rightarrow> (string list) EventHandler" where
  "logging_handler name can result =
     \<lparr>Handle = (\<lambda>ev w. (result, w @ [name])), CanHandle = (\<lambda>eventType. can)\<rparr>"

definition three_handlers :: "(string list) EventDispatcher" where
  "three_handlers =
     RegisterHandler
       (RegisterHandler
          (RegisterHandler NewEventDispatcher ''employee.created''
             (logging_handler ''first'' True (Some (ErrorString ''first failed''))))
          ''employee.created'' (logging_handler ''second'' False None))
       ''employee.created'' (logging_handler ''third'' True None)"

definition john_created :: DomainEvent where
  "john_created = EmployeeCreated (NewEmployeeCreatedEvent 2000 102 john)"

definition john_on_leave :: DomainEvent where
  "john_on_leave =
     EmployeeStatusChanged
       (NewEmployeeStatusChangedEvent 2000 103 7 EmployeeStatusActive EmployeeStatusOnLeave
          ''admin'')"

definition empty_memory :: memory where
  "empty_memory = \<lparr>employees = [], audit_logs = [], stored_events = []\<rparr>"

record directory =
  users :: "User list"
  login_events :: "DomainEvent list"

definition alice :: User where
  "alice = \<lparr>User_ID = 21, Username = ''alice'', User_Email = ''alice@example.com'',
             Password = ''hash:Secret123!'', Role = ''VIEWER'', IsActive = False,
             LastLogin = None, User_CreatedAt = 1000, User_UpdatedAt = 1500\<rparr>"

definition directory_service :: "directory UserService" where
  "directory_service =
     \<lparr>userRepo_FindByUsername = (\<lambda>n w. (Inr (find (\<lambda>u. Username u = n) (users w)), w)),
      userRepo_UpdateLastLogin = (\<lambda>i w. (None, w)),
      user_eventStore_SaveEvent = (\<lambda>ev w. (None, w\<lparr>login_events := login_events w @ [ev]\<rparr>)),
      user_eventDispatcher = NewEventDispatcher\<rparr>"

section \<open>Properties\<close>

subsection \<open>Validators\<close>

lemma first_error_None_iff: "first_error cs = None \<longleftrightarrow> (\<forall>c \<in> set cs. c = None)"
  by (induction cs rule: first_error.induct) auto

lemma check_None_iff: "check failed msg = None \<longleftrightarrow> \<not> failed"
  by (simp add: check_def)

lemma Employee_Validate_None_iff:
  "Employee_Validate lib clk e = None \<longleftrightarrow>
     ID e \<noteq> uuid_Nil \<and>
     validateName lib (FirstName e) ''first name'' = None \<and>
     validateName lib (LastName e) ''last name'' = None \<and>
     validateEmail (Email e) = None \<and>
     (Phone e \<noteq> [] \<longrightarrow> validatePhone (Phone e) = None) \<and>
     validateDepartment lib (Department e) = None \<and>
     validatePosition lib (Position e) = None \<and>
     validateHireDate clk (HireDate e) = None \<and>
     validateSalary (Salary e) = None \<and>
     IsValid (Status e) \<and>
     (\<forall>a. Address e = Some a \<longrightarrow> Address_Validate lib a = None)"
  by (simp add: Employee_Validate_def first_error_None_iff check_None_iff split: option.splits)

lemma NewEmployee_Inr_iff:
  "NewEmployee lib clk newid firstName lastName email phone department position hireDate
     salary managerID address = Inr e \<longleftrightarrow>
     e = \<lparr>ID = newid, FirstName = firstName, LastName = lastName, Email = email,
          Phone = phone, Department = department, Position = position,
          HireDate = hireDate, Salary = salary, Status = EmployeeStatusActive,
          ManagerID = managerID, Address = address, CreatedAt = Now clk,
          UpdatedAt = Now clk\<rparr> \<and>
     Employee_Validate lib clk e = None"
  by (auto simp add: NewEmployee_def Let_def split: option.splits)

lemma validateSalary_cases:
  "validateSalary s =
     (if f64_lt s (Fin 0) then Some (ErrorString ''salary cannot be negative'')
      else if f64_eq s (Fin 0) then Some (ErrorString ''salary is required'')
      else if f64_gt s (Fin 1000000) then Some (ErrorString ''salary cannot exceed $1,000,000'')
      else None)"
  by (simp add: validateSalary_def check_def)

lemma validateSalary_negative:
  "f64_lt s (Fin 0) \<Longrightarrow> validateSalary s = Some (ErrorString ''salary cannot be negative'')"
  by (simp add: validateSalary_cases)

lemma validateSalary_too_big:
  "f64_gt s (Fin 1000000) \<Longrightarrow>
     validateSalary s = Some (ErrorString ''salary cannot exceed $1,000,000'')"
  by (cases s) (auto simp add: validateSalary_cases f64_gt_def)

lemma validateSalary_in_range:
  "f64_gt s (Fin 0) \<Longrightarrow> f64_le s (Fin 1000000) \<Longrightarrow> validateSalary s = None"
  by (cases s) (auto simp add: validateSalary_cases f64_gt_def f64_le_def)

text \<open>A NaN is below nothing, equal to nothing and above nothing: it passes.\<close>

lemma validateSalary_NaN: "validateSalary NaN = None"
  by (simp add: validateSalary_cases f64_gt_def)

lemma NewEmployee_rejects_salary:
  assumes "validateSalary salary \<noteq> None"
  shows "isl (NewEmployee lib clk newid firstName lastName email phone department position
                hireDate salary managerID address)"
proof (cases "NewEmployee lib clk newid firstName lastName email phone department position
                hireDate salary managerID address")
  case (Inl err)
  then show ?thesis by simp
next
  case (Inr e)
  then have "validateSalary salary = None"
    by (auto simp add: NewEmployee_Inr_iff Employee_Validate_None_iff)
  with assms show ?thesis by simp
qed

lemma NewEmployee_accepts_salary:
  assumes "NewEmployee lib clk newid firstName lastName email phone department position
             hireDate salary0 managerID address = Inr e0"
      and "validateSalary salary = None"
  shows "NewEmployee lib clk newid firstName lastName email phone department position
           hireDate salary managerID address = Inr (e0\<lparr>Salary := salary\<rparr>)"
  using assms by (auto simp add: NewEmployee_Inr_iff Employee_Validate_None_iff)

lemma UpdateSalary_not_terminated:
  "\<not> IsTerminated e \<Longrightarrow>
     UpdateSalary clk e s =
       (case validateSalary s of
          Some err \<Rightarrow> Inl err
        | None \<Rightarrow> Inr (e\<lparr>Salary := s, UpdatedAt := Now clk\<rparr>))"
  by (simp add: UpdateSalary_def split: option.splits)

lemmas validator_defs =
  Employee_Validate_def validateName_def validateEmail_def validatePhone_def
  validateDepartment_def validatePosition_def validateHireDate_def validateSalary_def
  check_def emailRegex_def phoneRegex_def in_class_def lower_az_def upper_AZ_def
  digits_09_def re_space_def IsZero_def uuid_Nil_def IsValid_def EmployeeStatusActive_def
  EmployeeStatusTerminated_def EmployeeStatusOnLeave_def f64_gt_def f64_le_def
  Address_Validate_def validatePostalCode_def usZip_def caPostal_def general_def

lemma Employee_Validate_john: "Employee_Validate ascii_lib clock0 john = None"
  by (simp add: validator_defs john_def clock0_def ascii_lib_def)

lemma Employee_Validate_jane: "Employee_Validate ascii_lib clock0 jane = None"
  by (simp add: validator_defs jane_def main_street_def clock0_def ascii_lib_def)

text \<open>
  C6. \<open>validateSalary\<close> rejects zero, every negative salary, 1000001 and every salary
  above 1000000, and accepts 1000000 and every salary above zero and at most 1000000.
  \<open>NewEmployee\<close> fails on a salary that \<open>validateSalary\<close> rejects, and where it succeeds
  it succeeds with every salary that \<open>validateSalary\<close> accepts in its place;
  \<open>UpdateSalary\<close> on an employee that is not terminated fails or succeeds as
  \<open>validateSalary\<close> does.
\<close>

theorem validateSalary_range:
  "validateSalary (Fin 0) = Some (ErrorString ''salary is required'') \<and>
   (\<forall>s. f64_lt s (Fin 0) \<longrightarrow>
      validateSalary s = Some (ErrorString ''salary cannot be negative'')) \<and>
   validateSalary (Fin 1000001) = Some (ErrorString ''salary cannot exceed $1,000,000'') \<and>
   (\<forall>s. f64_gt s (Fin 1000000) \<longrightarrow>
      validateSalary s = Some (ErrorString ''salary cannot exceed $1,000,000'')) \<and>
   validateSalary (Fin 1000000) = None \<and>
   (\<forall>s. f64_gt s (Fin 0) \<and> f64_le s (Fin 1000000) \<longrightarrow> validateSalary s = None) \<and>
   (\<forall>lib clk newid firstName lastName email phone department position hireDate salary
      managerID address.
      validateSalary salary \<noteq> None \<longrightarrow>
      isl (NewEmployee lib clk newid firstName lastName email phone department position
             hireDate salary managerID address)) \<and>
   (\<forall>lib clk newid firstName lastName email phone department position hireDate salary0
      salary managerID address e0.
      NewEmployee lib clk newid firstName lastName email phone department position
        hireDate salary0 managerID address = Inr e0 \<and> validateSalary salary = None \<longrightarrow>
      NewEmployee lib clk newid firstName lastName email phone department position
        hireDate salary managerID address = Inr (e0\<lparr>Salary := salary\<rparr>)) \<and>
   (\<forall>clk e s. \<not> IsTerminated e \<longrightarrow>
      UpdateSalary clk e s =
        (case validateSalary s of
           Some err \<Rightarrow> Inl err
         | None \<Rightarrow> Inr (e\<lparr>Salary := s, UpdatedAt := Now clk\<rparr>)))"
proof -
  have zero: "validateSalary (Fin 0) = Some (ErrorString ''salary is required'')"
    by (simp add: validateSalary_cases)
  have above: "validateSalary (Fin 1000001) = Some (ErrorString ''salary cannot exceed $1,000,000'')"
    by (simp add: validateSalary_cases f64_gt_def)
  have top: "validateSalary (Fin 1000000) = None"
    by (simp add: validateSalary_cases f64_gt_def)
  show ?thesis
    by (intro conjI allI impI)
       (auto simp add: zero above top validateSalary_negative validateSalary_too_big
          validateSalary_in_range NewEmployee_rejects_salary UpdateSalary_not_terminated
          intro: NewEmployee_accepts_salary)
qed

theorem validateSalary_range_witness:
  "f64_lt (Fin (- 1000)) (Fin 0) \<and>
   validateSalary (Fin (- 1000)) = Some (ErrorString ''salary cannot be negative'') \<and>
   f64_gt PosInf (Fin 1000000) \<and>
   validateSalary PosInf = Some (ErrorString ''salary cannot exceed $1,000,000'') \<and>
   f64_gt (Fin 75000) (Fin 0) \<and> f64_le (Fin 75000) (Fin 1000000) \<and>
   validateSalary (Fin 75000) = None \<and>
   validateSalary (Fin 0) \<noteq> None \<and>
   isl (NewEmployee ascii_lib clock0 7 ''John'' ''Doe'' ''john.doe@example.com''
          ''555-123-4567'' ''Engineering'' ''Software Engineer'' 1000 (Fin 0) None None) \<and>
   NewEmployee ascii_lib clock0 7 ''John'' ''Doe'' ''john.doe@example.com''
     ''555-123-4567'' ''Engineering'' ''Software Engineer'' 1000 (Fin 75000) None None =
     Inr (john\<lparr>CreatedAt := 2000, UpdatedAt := 2000\<rparr>) \<and>
   NewEmployee ascii_lib clock0 7 ''John'' ''Doe'' ''john.doe@example.com''
     ''555-123-4567'' ''Engineering'' ''Software Engineer'' 1000 (Fin 1000000) None None =
     Inr (john\<lparr>CreatedAt := 2000, UpdatedAt := 2000, Salary := Fin 1000000\<rparr>) \<and>
   \<not> IsTerminated john \<and>
   UpdateSalary clock0 john (Fin 75000) = Inr (john\<lparr>Salary := Fin 75000, UpdatedAt := 2000\<rparr>)"
proof -
  note r = validateSalary_range
  have acc_all: "\<forall>lib clk newid firstName lastName email phone department position hireDate
      salary0 salary managerID address e0.
      NewEmployee lib clk newid firstName lastName email phone department position
        hireDate salary0 managerID address = Inr e0 \<and> validateSalary salary = None \<longrightarrow>
      NewEmployee lib clk newid firstName lastName email phone department position
        hireDate salary managerID address = Inr (e0\<lparr>Salary := salary\<rparr>)"
    using r by (elim conjE)
  have top: "validateSalary (Fin 1000000) = None"
    using r by (elim conjE)
  have new0: "NewEmployee ascii_lib clock0 7 ''John'' ''Doe'' ''john.doe@example.com''
     ''555-123-4567'' ''Engineering'' ''Software Engineer'' 1000 (Fin 75000) None None =
     Inr (john\<lparr>CreatedAt := 2000, UpdatedAt := 2000\<rparr>)"
    by (simp add: NewEmployee_def validator_defs john_def clock0_def ascii_lib_def)
  have new1: "NewEmployee ascii_lib clock0 7 ''John'' ''Doe'' ''john.doe@example.com''
     ''555-123-4567'' ''Engineering'' ''Software Engineer'' 1000 (Fin 1000000) None None =
     Inr (john\<lparr>CreatedAt := 2000, UpdatedAt := 2000, Salary := Fin 1000000\<rparr>)"
    using acc_all new0 top by blast
  have neg_all: "\<forall>s. f64_lt s (Fin 0) \<longrightarrow>
      validateSalary s = Some (ErrorString ''salary cannot be negative'')"
    using r by (elim conjE)
  have big_all: "\<forall>s. f64_gt s (Fin 1000000) \<longrightarrow>
      validateSalary s = Some (ErrorString ''salary cannot exceed $1,000,000'')"
    using r by (elim conjE)
  have mid_all: "\<forall>s. f64_gt s (Fin 0) \<and> f64_le s (Fin 1000000) \<longrightarrow> validateSalary s = None"
    using r by (elim conjE)
  have new_all: "\<forall>lib clk newid firstName lastName email phone department position hireDate
      salary managerID address.
      validateSalary salary \<noteq> None \<longrightarrow>
      isl (NewEmployee lib clk newid firstName lastName email phone department position
             hireDate salary managerID address)"
    using r by (elim conjE)
  have upd_all: "\<forall>clk e s. \<not> IsTerminated e \<longrightarrow>
      UpdateSalary clk e s =
        (case validateSalary s of
           Some err \<Rightarrow> Inl err
         | None \<Rightarrow> Inr (e\<lparr>Salary := s, UpdatedAt := Now clk\<rparr>))"
    using r by (elim conjE)
  have zero: "validateSalary (Fin 0) = Some (ErrorString ''salary is required'')"
    using r by (elim conjE)
  have neg: "f64_lt (Fin (- 1000)) (Fin 0)" by simp
  have big: "f64_gt PosInf (Fin 1000000)" by (simp add: f64_gt_def)
  have mid: "f64_gt (Fin 75000) (Fin 0) \<and> f64_le (Fin 75000) (Fin 1000000)"
    by (simp add: f64_gt_def f64_le_def)
  have live: "\<not> IsTerminated john"
    by (simp add: IsTerminated_def john_def EmployeeStatusActive_def EmployeeStatusTerminated_def)
  have ok: "validateSalary (Fin 75000) = None"
    using mid_all mid by simp
  have upd: "UpdateSalary clock0 john (Fin 75000) =
               Inr (john\<lparr>Salary := Fin 75000, UpdatedAt := 2000\<rparr>)"
    using upd_all live by (simp add: ok clock0_def)
  have z: "validateSalary (Fin 0) \<noteq> None"
    using zero by simp
  have new: "isl (NewEmployee ascii_lib clock0 7 ''John'' ''Doe'' ''john.doe@example.com''
          ''555-123-4567'' ''Engineering'' ''Software Engineer'' 1000 (Fin 0) None None)"
    using new_all z by blast
  show ?thesis
    using neg_all neg big_all big mid ok live upd z new new0 new1 by simp
qed

subsection \<open>The terminal status\<close>

lemma ChangeStatus_terminated:
  "Status e = EmployeeStatusTerminated \<Longrightarrow>
     ChangeStatus clk e t =
       Inl (ErrorString (''invalid status transition from '' @ EmployeeStatusTerminated @
                         '' to '' @ t))"
  by (simp add: ChangeStatus_def ValidateTransition_def CanChangeTo_def)

lemma UpdateSalary_terminated:
  "Status e = EmployeeStatusTerminated \<Longrightarrow> isl (UpdateSalary clk e s)"
  by (simp add: UpdateSalary_def IsTerminated_def split: option.splits)

lemma UpdatePosition_terminated:
  "Status e = EmployeeStatusTerminated \<Longrightarrow> isl (UpdatePosition lib clk e p d)"
  by (simp add: UpdatePosition_def IsTerminated_def split: option.splits)

lemma ChangeStatus_permitted:
  "Status e \<noteq> EmployeeStatusTerminated \<Longrightarrow> IsValid t \<Longrightarrow>
     ChangeStatus clk e t = Inr (e\<lparr>Status := t, UpdatedAt := Now clk\<rparr>)"
  by (simp add: ChangeStatus_def ValidateTransition_def CanChangeTo_def)

lemma status_constants_differ:
  "EmployeeStatusActive \<noteq> EmployeeStatusTerminated"
  "EmployeeStatusOnLeave \<noteq> EmployeeStatusTerminated"
  by (simp_all add: EmployeeStatusActive_def EmployeeStatusTerminated_def
        EmployeeStatusOnLeave_def)

text \<open>
  C2. On an employee whose status is TERMINATED, \<open>ChangeStatus\<close> fails for every target,
  \<open>UpdateSalary\<close> for every salary and \<open>UpdatePosition\<close> for every position and
  department. On an employee whose status is ACTIVE or ON_LEAVE, \<open>ChangeStatus\<close> succeeds
  for every valid target, the current status included, and sets the status to it.
\<close>

theorem terminated_is_terminal:
  "(Status e = EmployeeStatusTerminated \<longrightarrow>
      (\<forall>clk t. isl (ChangeStatus clk e t)) \<and>
      (\<forall>clk s. isl (UpdateSalary clk e s)) \<and>
      (\<forall>lib clk p d. isl (UpdatePosition lib clk e p d))) \<and>
   (Status e = EmployeeStatusActive \<or> Status e = EmployeeStatusOnLeave \<longrightarrow>
      (\<forall>clk t. IsValid t \<longrightarrow>
         ChangeStatus clk e t = Inr (e\<lparr>Status := t, UpdatedAt := Now clk\<rparr>)) \<and>
      ChangeStatus clk0 e (Status e) = Inr (e\<lparr>UpdatedAt := Now clk0\<rparr>))"
proof (intro conjI impI allI)
  fix clk t assume "Status e = EmployeeStatusTerminated"
  then show "isl (ChangeStatus clk e t)" by (simp add: ChangeStatus_terminated)
next
  fix clk s assume "Status e = EmployeeStatusTerminated"
  then show "isl (UpdateSalary clk e s)" by (rule UpdateSalary_terminated)
next
  fix lib clk p d assume "Status e = EmployeeStatusTerminated"
  then show "isl (UpdatePosition lib clk e p d)" by (rule UpdatePosition_terminated)
next
  fix clk t
  assume "Status e = EmployeeStatusActive \<or> Status e = EmployeeStatusOnLeave" and "IsValid t"
  then show "ChangeStatus clk e t = Inr (e\<lparr>Status := t, UpdatedAt := Now clk\<rparr>)"
    using status_constants_differ by (auto intro: ChangeStatus_permitted)
next
  assume live: "Status e = EmployeeStatusActive \<or> Status e = EmployeeStatusOnLeave"
  then have valid: "IsValid (Status e)" by (auto simp add: IsValid_def)
  from live have "Status e \<noteq> EmployeeStatusTerminated"
    using status_constants_differ by auto
  then have "ChangeStatus clk0 e (Status e) =
               Inr (e\<lparr>Status := Status e, UpdatedAt := Now clk0\<rparr>)"
    using valid by (rule ChangeStatus_permitted)
  then show "ChangeStatus clk0 e (Status e) = Inr (e\<lparr>UpdatedAt := Now clk0\<rparr>)" by simp
qed

theorem terminated_is_terminal_witness:
  "Status (john\<lparr>Status := EmployeeStatusTerminated\<rparr>) = EmployeeStatusTerminated \<and>
   isl (ChangeStatus clock0 (john\<lparr>Status := EmployeeStatusTerminated\<rparr>) EmployeeStatusActive) \<and>
   isl (UpdateSalary clock0 (john\<lparr>Status := EmployeeStatusTerminated\<rparr>) (Fin 80000)) \<and>
   isl (UpdatePosition ascii_lib clock0 (john\<lparr>Status := EmployeeStatusTerminated\<rparr>)
          ''Manager'' ''Engineering'') \<and>
   Status john = EmployeeStatusActive \<and> IsValid EmployeeStatusOnLeave \<and>
   ChangeStatus clock0 john EmployeeStatusOnLeave =
     Inr (john\<lparr>Status := EmployeeStatusOnLeave, UpdatedAt := 2000\<rparr>) \<and>
   ChangeStatus clock0 john EmployeeStatusActive = Inr (john\<lparr>UpdatedAt := 2000\<rparr>)"
proof -
  have t: "Status (john\<lparr>Status := EmployeeStatusTerminated\<rparr>) = EmployeeStatusTerminated"
    by simp
  have a: "Status john = EmployeeStatusActive" by (simp add: john_def)
  have v: "IsValid EmployeeStatusOnLeave" by (simp add: IsValid_def)
  note dead = terminated_is_terminal [of "john\<lparr>Status := EmployeeStatusTerminated\<rparr>" clock0,
                THEN conjunct1, rule_format, OF t]
  note live = terminated_is_terminal [of john clock0, THEN conjunct2, rule_format, OF disjI1, OF a]
  have l1: "ChangeStatus clock0 john EmployeeStatusOnLeave =
              Inr (john\<lparr>Status := EmployeeStatusOnLeave, UpdatedAt := 2000\<rparr>)"
    using live v by (simp add: clock0_def)
  have l2: "ChangeStatus clock0 john EmployeeStatusActive = Inr (john\<lparr>UpdatedAt := 2000\<rparr>)"
    using live a by (simp add: clock0_def)
  show ?thesis using t a v dead l1 l2 by simp
qed

subsection \<open>The kind of an audit log\<close>

lemma AuditLog_Validate_None_iff:
  "AuditLog_Validate a = None \<longleftrightarrow>
     AuditLog_ID a \<noteq> uuid_Nil \<and> EmployeeID a \<noteq> uuid_Nil \<and>
     validateOperation (Operation a) = None \<and> UserID a \<noteq> [] \<and> \<not> IsZero (Timestamp a) \<and>
     IPAddress a \<noteq> [] \<and> validateIPAddress (IPAddress a) = None \<and>
     \<not> (OldValues a = [] \<and> NewValues a = [])"
  by (auto simp add: AuditLog_Validate_def first_error_None_iff check_None_iff)

text \<open>
  C7. An audit log that passes \<open>AuditLog.Validate\<close>, as every audit log that
  \<open>NewAuditLog\<close> returns does, is exactly one of a creation, a deletion and an update:
  a creation when only the new values are there, a deletion when only the old values
  are there, an update when both are there.
\<close>

theorem audit_log_kind:
  assumes "AuditLog_Validate a = None"
  shows "(IsCreation a \<longleftrightarrow> OldValues a = [] \<and> NewValues a \<noteq> []) \<and>
         (IsDeletion a \<longleftrightarrow> NewValues a = [] \<and> OldValues a \<noteq> []) \<and>
         (IsUpdate a \<longleftrightarrow> OldValues a \<noteq> [] \<and> NewValues a \<noteq> []) \<and>
         ((IsCreation a \<and> \<not> IsDeletion a \<and> \<not> IsUpdate a) \<or>
          (\<not> IsCreation a \<and> IsDeletion a \<and> \<not> IsUpdate a) \<or>
          (\<not> IsCreation a \<and> \<not> IsDeletion a \<and> IsUpdate a))"
  using assms
  by (auto simp add: AuditLog_Validate_None_iff IsCreation_def IsDeletion_def IsUpdate_def)

theorem audit_log_kind_witness:
  "NewAuditLog 2000 100 7 OperationChangeStatus ''admin'' [(''status'', VString ''ACTIVE'')]
     [(''status'', VString ''ON_LEAVE'')] ''192.168.1.1'' ''agent'' = Inr status_log \<and>
   AuditLog_Validate status_log = None \<and>
   IsUpdate status_log \<and> \<not> IsCreation status_log \<and> \<not> IsDeletion status_log \<and>
   AuditLog_Validate (status_log\<lparr>OldValues := []\<rparr>) = None \<and>
   IsCreation (status_log\<lparr>OldValues := []\<rparr>) \<and>
   AuditLog_Validate (status_log\<lparr>NewValues := []\<rparr>) = None \<and>
   IsDeletion (status_log\<lparr>NewValues := []\<rparr>)"
proof -
  have v: "AuditLog_Validate status_log = None"
    by (simp add: status_log_def AuditLog_Validate_None_iff validateOperation_def
        validateIPAddress_def isValidOperationFormat_def validator_defs OperationChangeStatus_def)
  then have v1: "AuditLog_Validate (status_log\<lparr>OldValues := []\<rparr>) = None"
    and v2: "AuditLog_Validate (status_log\<lparr>NewValues := []\<rparr>) = None"
    by (simp_all add: AuditLog_Validate_None_iff status_log_def)
  have n: "NewAuditLog 2000 100 7 OperationChangeStatus ''admin''
             [(''status'', VString ''ACTIVE'')] [(''status'', VString ''ON_LEAVE'')]
             ''192.168.1.1'' ''agent'' = Inr status_log"
    using v by (simp add: NewAuditLog_def status_log_def)
  show ?thesis
    using n v v1 v2 audit_log_kind [OF v] audit_log_kind [OF v1] audit_log_kind [OF v2]
    by (simp add: status_log_def)
qed

subsection \<open>Dispatch\<close>

lemma handler_errors_Nil [simp]: "handler_errors ty [] = []"
  by (simp add: handler_errors_def)

lemma handler_errors_Cons:
  "handler_errors ty (r # rs) =
     (case r of None \<Rightarrow> [] | Some err \<Rightarrow> [Wrapped (''handler failed for event '' @ ty) err])
     @ handler_errors ty rs"
  by (simp add: handler_errors_def)

lemma handler_errors_empty_iff: "handler_errors ty rs = [] \<longleftrightarrow> (\<forall>r \<in> set rs. r = None)"
  by (induction rs) (auto simp add: handler_errors_Cons split: option.splits)

lemma length_invoke_all: "length (fst (invoke_all hs event w)) = length hs"
proof (induction hs arbitrary: w)
  case Nil
  then show ?case by simp
next
  case (Cons h hs)
  obtain r w1 where step: "Handle h event w = (r, w1)" by (cases "Handle h event w")
  obtain rs w2 where rest: "invoke_all hs event w1 = (rs, w2)"
    by (cases "invoke_all hs event w1")
  from Cons.IH [of w1] rest have "length rs = length hs" by simp
  then show ?case using step rest by simp
qed

text \<open>The loop visits every handler of the list: it runs those that can handle the
  type, whatever the ones before returned, and keeps their errors in order.\<close>

lemma dispatch_loop_invoke_all:
  "dispatch_loop hs event errs w =
     (case invoke_all (filter (\<lambda>h. CanHandle h (GetType event)) hs) event w of
        (rs, w') \<Rightarrow> (errs @ handler_errors (GetType event) rs, w'))"
proof (induction hs arbitrary: errs w)
  case Nil
  then show ?case by simp
next
  case (Cons h hs)
  show ?case
  proof (cases "CanHandle h (GetType event)")
    case False
    then show ?thesis by (simp add: Cons.IH)
  next
    case True
    obtain r w1 where step: "Handle h event w = (r, w1)" by (cases "Handle h event w")
    obtain rs w2 where
      rest: "invoke_all (filter (\<lambda>h. CanHandle h (GetType event)) hs) event w1 = (rs, w2)"
      by (cases "invoke_all (filter (\<lambda>h. CanHandle h (GetType event)) hs) event w1")
    show ?thesis
      using True step rest by (cases r) (simp_all add: Cons.IH handler_errors_Cons)
  qed
qed

lemma Dispatch_no_handlers:
  "handlers d (GetType event) = None \<Longrightarrow> Dispatch d event w = (None, w)"
  by (simp add: Dispatch_def)

lemma Dispatch_registered:
  assumes "handlers d (GetType event) = Some hs"
      and "invoke_all (filter (\<lambda>h. CanHandle h (GetType event)) hs) event w = (rs, w')"
  shows "Dispatch d event w =
           (if list_all (\<lambda>r. r = None) rs then None
            else Some (DispatchFailed (length (handler_errors (GetType event) rs))
                         (handler_errors (GetType event) rs)),
            w')"
proof -
  have "handler_errors (GetType event) rs = [] \<longleftrightarrow> list_all (\<lambda>r. r = None) rs"
    by (simp add: handler_errors_empty_iff list_all_iff)
  then show ?thesis
    using assms by (auto simp add: Dispatch_def dispatch_loop_invoke_all)
qed

text \<open>
  C8. \<open>Dispatch\<close> returns nil, and leaves the world as it is, when no handlers are
  registered for the type of the event. Otherwise it does what invoking, in the order of
  registration, every registered handler whose \<open>CanHandle\<close> is true does (one call per
  such handler, whatever the calls before it returned), and returns nil when every call
  returned nil, and else one error that holds the errors of the calls that failed.
\<close>

theorem Dispatch_fan_out:
  "(handlers d (GetType event) = None \<longrightarrow> Dispatch d event w = (None, w)) \<and>
   (\<forall>hs rs w'.
      handlers d (GetType event) = Some hs \<and>
      invoke_all (filter (\<lambda>h. CanHandle h (GetType event)) hs) event w = (rs, w') \<longrightarrow>
        length rs = length (filter (\<lambda>h. CanHandle h (GetType event)) hs) \<and>
        Dispatch d event w =
          (if list_all (\<lambda>r. r = None) rs then None
           else Some (DispatchFailed (length (handler_errors (GetType event) rs))
                        (handler_errors (GetType event) rs)),
           w'))"
proof (intro conjI impI allI)
  assume "handlers d (GetType event) = None"
  then show "Dispatch d event w = (None, w)" by (rule Dispatch_no_handlers)
next
  fix hs rs w'
  assume a: "handlers d (GetType event) = Some hs \<and>
      invoke_all (filter (\<lambda>h. CanHandle h (GetType event)) hs) event w = (rs, w')"
  then show "length rs = length (filter (\<lambda>h. CanHandle h (GetType event)) hs)"
    using length_invoke_all [of "filter (\<lambda>h. CanHandle h (GetType event)) hs" event w]
    by simp
  from a show "Dispatch d event w =
          (if list_all (\<lambda>r. r = None) rs then None
           else Some (DispatchFailed (length (handler_errors (GetType event) rs))
                        (handler_errors (GetType event) rs)),
           w')"
    by (simp add: Dispatch_registered)
qed

theorem Dispatch_fan_out_witness:
  "handlers three_handlers (GetType john_on_leave) = None \<and>
   Dispatch three_handlers john_on_leave [] = (None, []) \<and>
   handlers three_handlers (GetType john_created) =
     Some [logging_handler ''first'' True (Some (ErrorString ''first failed'')),
           logging_handler ''second'' False None,
           logging_handler ''third'' True None] \<and>
   invoke_all
     (filter (\<lambda>h. CanHandle h (GetType john_created))
        [logging_handler ''first'' True (Some (ErrorString ''first failed'')),
         logging_handler ''second'' False None,
         logging_handler ''third'' True None])
     john_created [] =
     ([Some (ErrorString ''first failed''), None], [''first'', ''third'']) \<and>
   Dispatch three_handlers john_created [] =
     (Some (DispatchFailed 1
              [Wrapped ''handler failed for event employee.created''
                 (ErrorString ''first failed'')]),
      [''first'', ''third''])"
proof -
  have ty1: "GetType john_on_leave = ''employee.status_changed''"
    by (simp add: GetType_def john_on_leave_def NewEmployeeStatusChangedEvent_def
        NewBaseDomainEvent_def)
  have ty2: "GetType john_created = ''employee.created''"
    by (simp add: GetType_def john_created_def NewEmployeeCreatedEvent_def
        NewBaseDomainEvent_def)
  have none: "handlers three_handlers (GetType john_on_leave) = None"
    by (simp add: ty1 three_handlers_def RegisterHandler_def NewEventDispatcher_def)
  have some: "handlers three_handlers (GetType john_created) =
     Some [logging_handler ''first'' True (Some (ErrorString ''first failed'')),
           logging_handler ''second'' False None,
           logging_handler ''third'' True None]"
    by (simp add: ty2 three_handlers_def RegisterHandler_def NewEventDispatcher_def)
  have run: "invoke_all
     (filter (\<lambda>h. CanHandle h (GetType john_created))
        [logging_handler ''first'' True (Some (ErrorString ''first failed'')),
         logging_handler ''second'' False None,
         logging_handler ''third'' True None])
     john_created [] =
     ([Some (ErrorString ''first failed''), None], [''first'', ''third''])"
    by (simp add: logging_handler_def)
  note quiet = Dispatch_fan_out [of three_handlers john_on_leave "[]", THEN conjunct1,
                 rule_format, OF none]
  note loud = Dispatch_fan_out [of three_handlers john_created "[]", THEN conjunct2,
                rule_format, OF conjI, OF some run]
  have d: "Dispatch three_handlers john_created [] =
     (Some (DispatchFailed 1
              [Wrapped ''handler failed for event employee.created''
                 (ErrorString ''first failed'')]),
      [''first'', ''third''])"
    using loud by (simp add: handler_errors_def ty2)
  show ?thesis using none quiet some run d by simp
qed

subsection \<open>The changed fields of an audit log\<close>

lemma interface_eq_Fault_iff:
  "interface_eq a b = Fault f \<longleftrightarrow>
     f = UncomparableType \<and> TypeOf a = TypeOf b \<and>
     (TypeOf a = Some TStringSlice \<or> TypeOf a = Some TMap)"
  by (auto simp add: interface_eq_def comparable_def split: option.splits)

lemma valuesEqual_Fault_iff:
  "valuesEqual lib a b = Fault f \<longleftrightarrow>
     f = UncomparableType \<and> TypeOf a = TypeOf b \<and>
     (TypeOf a = Some TStringSlice \<or> TypeOf a = Some TMap)"
proof (cases "interface_eq a b")
  case (Done eq)
  then have "valuesEqual lib a b \<noteq> Fault f"
    by (cases eq) (simp_all add: valuesEqual_def)
  moreover from Done have "\<not> (f = UncomparableType \<and> TypeOf a = TypeOf b \<and>
     (TypeOf a = Some TStringSlice \<or> TypeOf a = Some TMap))"
    using interface_eq_Fault_iff [of a b f] by simp
  ultimately show ?thesis by simp
next
  case (Fault g)
  then have "valuesEqual lib a b = Fault g" by (simp add: valuesEqual_def)
  then show ?thesis using Fault interface_eq_Fault_iff [of a b f] by auto
qed

lemma changed_in_both_result:
  "changed_in_both lib old new ks acc =
     (if list_ex (clashes lib old new) ks then Fault UncomparableType
      else Done (acc @ filter (differs lib old new) ks))"
proof (induction ks arbitrary: acc)
  case Nil
  then show ?case by simp
next
  case (Cons k ks)
  show ?case
  proof (cases "map_of new k")
    case None
    then have "\<not> clashes lib old new k" and "\<not> differs lib old new k"
      by (simp_all add: clashes_def differs_def)
    then show ?thesis using None by (simp add: Cons.IH)
  next
    case (Some newValue)
    show ?thesis
    proof (cases "valuesEqual lib (index_map old k) newValue")
      case (Done eq)
      then have "\<not> clashes lib old new k" and "differs lib old new k \<longleftrightarrow> \<not> eq"
        using Some by (simp_all add: clashes_def differs_def)
      then show ?thesis using Some Done by (simp add: Cons.IH)
    next
      case (Fault f)
      then have f: "f = UncomparableType" by (simp add: valuesEqual_Fault_iff)
      then have "clashes lib old new k" using Some Fault by (simp add: clashes_def)
      then show ?thesis using Some Fault f by simp
    qed
  qed
qed

lemma GetChangedFields_result:
  "GetChangedFields lib a =
     (if list_ex (clashes lib (OldValues a) (NewValues a)) (map fst (OldValues a))
      then Fault UncomparableType
      else Done (filter (differs lib (OldValues a) (NewValues a)) (map fst (OldValues a)) @
                 filter (\<lambda>k. map_of (OldValues a) k = None) (map fst (NewValues a))))"
  by (simp add: GetChangedFields_def changed_in_both_result)

text \<open>
  Where \<open>GetChangedFields\<close> returns, it returns the keys of both maps whose values
  differ under \<open>valuesEqual\<close> and the keys of the new values that the old values do not
  have; a key of the old values alone is not among them. It returns unless the two maps
  hold, under one key, two slices or two maps.
\<close>

lemma map_of_keys: "k \<in> fst ` set m \<longleftrightarrow> map_of m k \<noteq> None"
  by (simp add: map_of_eq_None_iff)

lemma differs_iff:
  "differs lib old new k \<longleftrightarrow>
     (\<exists>newValue. map_of new k = Some newValue \<and>
        valuesEqual lib (index_map old k) newValue = Done False)"
  by (simp add: differs_def split: option.splits)

lemma clashes_iff:
  "clashes lib old new k \<longleftrightarrow>
     (\<exists>newValue. map_of new k = Some newValue \<and>
        valuesEqual lib (index_map old k) newValue = Fault UncomparableType)"
  by (simp add: clashes_def split: option.splits)

lemma index_map_Some: "map_of m k = Some v \<Longrightarrow> index_map m k = v"
  by (simp add: index_map_def)

lemma GetChangedFields_returns_diff:
  assumes "GetChangedFields lib a = Done ks"
  shows "set ks =
           {k. \<exists>oldValue newValue.
                 map_of (OldValues a) k = Some oldValue \<and>
                 map_of (NewValues a) k = Some newValue \<and>
                 valuesEqual lib oldValue newValue = Done False} \<union>
           {k. map_of (NewValues a) k \<noteq> None \<and> map_of (OldValues a) k = None}"
proof -
  from assms have ks: "ks = filter (differs lib (OldValues a) (NewValues a))
                               (map fst (OldValues a)) @
                             filter (\<lambda>k. map_of (OldValues a) k = None) (map fst (NewValues a))"
    by (simp add: GetChangedFields_result split: if_splits)
  have first: "set (filter (differs lib (OldValues a) (NewValues a)) (map fst (OldValues a))) =
           {k. \<exists>oldValue newValue.
                 map_of (OldValues a) k = Some oldValue \<and>
                 map_of (NewValues a) k = Some newValue \<and>
                 valuesEqual lib oldValue newValue = Done False}"
  proof (intro set_eqI iffI)
    fix k
    assume "k \<in> set (filter (differs lib (OldValues a) (NewValues a)) (map fst (OldValues a)))"
    then have "k \<in> fst ` set (OldValues a)" and d: "differs lib (OldValues a) (NewValues a) k"
      by auto
    then obtain oldValue where o: "map_of (OldValues a) k = Some oldValue"
      by (auto simp add: map_of_keys)
    from d obtain newValue where n: "map_of (NewValues a) k = Some newValue"
      and v: "valuesEqual lib (index_map (OldValues a) k) newValue = Done False"
      by (auto simp add: differs_iff)
    from v o have "valuesEqual lib oldValue newValue = Done False"
      by (simp add: index_map_Some)
    with o n show "k \<in> {k. \<exists>oldValue newValue.
                 map_of (OldValues a) k = Some oldValue \<and>
                 map_of (NewValues a) k = Some newValue \<and>
                 valuesEqual lib oldValue newValue = Done False}" by blast
  next
    fix k
    assume "k \<in> {k. \<exists>oldValue newValue.
                 map_of (OldValues a) k = Some oldValue \<and>
                 map_of (NewValues a) k = Some newValue \<and>
                 valuesEqual lib oldValue newValue = Done False}"
    then obtain oldValue newValue where o: "map_of (OldValues a) k = Some oldValue"
      and n: "map_of (NewValues a) k = Some newValue"
      and v: "valuesEqual lib oldValue newValue = Done False" by blast
    from o have "k \<in> fst ` set (OldValues a)" by (simp add: map_of_keys)
    moreover from o n v have "differs lib (OldValues a) (NewValues a) k"
      by (simp add: differs_iff index_map_Some)
    ultimately show
      "k \<in> set (filter (differs lib (OldValues a) (NewValues a)) (map fst (OldValues a)))"
      by simp
  qed
  have second: "set (filter (\<lambda>k. map_of (OldValues a) k = None) (map fst (NewValues a))) =
           {k. map_of (NewValues a) k \<noteq> None \<and> map_of (OldValues a) k = None}"
    using map_of_keys [of _ "NewValues a"] by auto
  show ?thesis unfolding ks set_append first second ..
qed

lemma GetChangedFields_omits_removed:
  assumes "GetChangedFields lib a = Done ks"
      and "map_of (NewValues a) k = None"
  shows "k \<notin> set ks"
  using GetChangedFields_returns_diff [OF assms(1)] assms(2) by auto

lemma GetChangedFields_returns_iff:
  "(\<exists>ks. GetChangedFields lib a = Done ks) \<longleftrightarrow>
     \<not> (\<exists>k oldValue newValue.
           map_of (OldValues a) k = Some oldValue \<and> map_of (NewValues a) k = Some newValue \<and>
           TypeOf oldValue = TypeOf newValue \<and>
           (TypeOf oldValue = Some TStringSlice \<or> TypeOf oldValue = Some TMap))"
proof -
  define clash where "clash \<longleftrightarrow>
        (\<exists>k oldValue newValue.
           map_of (OldValues a) k = Some oldValue \<and> map_of (NewValues a) k = Some newValue \<and>
           TypeOf oldValue = TypeOf newValue \<and>
           (TypeOf oldValue = Some TStringSlice \<or> TypeOf oldValue = Some TMap))"
  have eq: "list_ex (clashes lib (OldValues a) (NewValues a)) (map fst (OldValues a)) \<longleftrightarrow>
        clash"
  proof
    assume "list_ex (clashes lib (OldValues a) (NewValues a)) (map fst (OldValues a))"
    then obtain k where "k \<in> fst ` set (OldValues a)"
      and c: "clashes lib (OldValues a) (NewValues a) k"
      by (auto simp add: list_ex_iff)
    then obtain oldValue where o: "map_of (OldValues a) k = Some oldValue"
      by (auto simp add: map_of_keys)
    from c obtain newValue where n: "map_of (NewValues a) k = Some newValue"
      and v: "valuesEqual lib (index_map (OldValues a) k) newValue = Fault UncomparableType"
      by (auto simp add: clashes_iff)
    from v o have "valuesEqual lib oldValue newValue = Fault UncomparableType"
      by (simp add: index_map_Some)
    then have "TypeOf oldValue = TypeOf newValue \<and>
           (TypeOf oldValue = Some TStringSlice \<or> TypeOf oldValue = Some TMap)"
      by (auto simp add: valuesEqual_Fault_iff)
    with o n show clash unfolding clash_def by blast
  next
    assume clash
    then obtain k oldValue newValue where o: "map_of (OldValues a) k = Some oldValue"
      and n: "map_of (NewValues a) k = Some newValue"
      and t: "TypeOf oldValue = TypeOf newValue \<and>
           (TypeOf oldValue = Some TStringSlice \<or> TypeOf oldValue = Some TMap)"
      unfolding clash_def by blast
    from t have "valuesEqual lib oldValue newValue = Fault UncomparableType"
      by (auto simp add: valuesEqual_Fault_iff)
    with o n have "clashes lib (OldValues a) (NewValues a) k"
      by (simp add: clashes_iff index_map_Some)
    moreover from o have "k \<in> fst ` set (OldValues a)" by (simp add: map_of_keys)
    ultimately show "list_ex (clashes lib (OldValues a) (NewValues a)) (map fst (OldValues a))"
      by (auto simp add: list_ex_iff)
  qed
  have "(\<exists>ks. GetChangedFields lib a = Done ks) \<longleftrightarrow> \<not> clash"
    by (simp add: GetChangedFields_result eq)
  then show ?thesis unfolding clash_def .
qed

subsection \<open>Runs of the service on concrete inputs\<close>

lemmas service_defs =
  memory_service_def empty_memory_def NewEventDispatcher_def Dispatch_def GetType_def
  NewBaseDomainEvent_def audit_or_nil_def NewAuditLog_def AuditLog_Validate_def
  validateOperation_def validateIPAddress_def isValidOperationFormat_def
  OperationCreateEmployee_def OperationUpdateEmployee_def OperationChangeStatus_def
  OperationUpdateSalary_def createEmployeeSnapshot_def ids0_def

lemma jane_raise:
  "UpdateEmployee memory_service lib clock0 ids0 8 [(''salary'', VFloat (Fin 60000))]
     ''admin'' ''192.168.1.1'' ''agent'' (empty_memory\<lparr>employees := [jane]\<rparr>) =
   (Inr (jane\<lparr>Salary := Fin 60000, UpdatedAt := 2000\<rparr>),
    \<lparr>employees = [jane\<lparr>Salary := Fin 60000, UpdatedAt := 2000\<rparr>],
     audit_logs = [Some jane_raise_log],
     stored_events =
       [EmployeeUpdated
          (NewEmployeeUpdatedEvent 2000 101 (jane\<lparr>Salary := Fin 60000, UpdatedAt := 2000\<rparr>)
             [''salary''])]\<rparr>)"
  by (simp add: UpdateEmployee_def applyEmployeeUpdates_def validateEmployeeUpdate_def
      createAuditLogForUpdate_def NewEmployeeUpdatedEvent_def service_defs validator_defs
      jane_raise_log_def jane_def main_street_def clock0_def)

lemma jane_raise_log_valid: "AuditLog_Validate jane_raise_log = None"
  by (simp add: jane_raise_log_def service_defs validator_defs jane_def)

lemma jane_raise_log_address:
  "map_of (OldValues jane_raise_log) ''address'' =
     Some (VMap [(''street'', VString ''123 Main St''), (''city'', VString ''Anytown''),
                 (''state'', VString ''CA''), (''postalCode'', VString ''12345''),
                 (''country'', VString ''USA'')]) \<and>
   map_of (NewValues jane_raise_log) ''address'' =
     Some (VMap [(''street'', VString ''123 Main St''), (''city'', VString ''Anytown''),
                 (''state'', VString ''CA''), (''postalCode'', VString ''12345''),
                 (''country'', VString ''USA'')])"
  by (simp add: jane_raise_log_def createEmployeeSnapshot_def jane_def main_street_def)

lemma jane_raise_log_panics: "GetChangedFields lib jane_raise_log = Fault UncomparableType"
proof -
  have "\<not> (\<exists>ks. GetChangedFields lib jane_raise_log = Done ks)"
    unfolding GetChangedFields_returns_iff using jane_raise_log_address by fastforce
  then show ?thesis by (simp add: GetChangedFields_result split: if_splits)
qed

text \<open>
  C10. The claim holds where \<open>GetChangedFields\<close> returns (\<open>GetChangedFields_returns_diff\<close>
  and \<open>GetChangedFields_omits_removed\<close>), and it does not return for every audit log: on
  the audit log that \<open>UpdateEmployee\<close> builds for an employee with an address, whose old
  and new values both hold the address as a map, the comparison of the two maps panics.
\<close>

theorem GetChangedFields_panics_on_address:
  "audit_logs (snd (UpdateEmployee memory_service lib clock0 ids0 8
                      [(''salary'', VFloat (Fin 60000))] ''admin'' ''192.168.1.1'' ''agent''
                      (empty_memory\<lparr>employees := [jane]\<rparr>))) = [Some jane_raise_log] \<and>
   AuditLog_Validate jane_raise_log = None \<and>
   GetChangedFields lib jane_raise_log = Fault UncomparableType"
  by (simp add: jane_raise jane_raise_log_valid jane_raise_log_panics)

lemma ChangeStatus_sets_status: "ChangeStatus clk e t = Inr e' \<Longrightarrow> Status e' = t"
  by (auto simp add: ChangeStatus_def split: option.splits)

text \<open>Whatever the status was before, \<open>ChangeEmployeeStatus\<close> builds the audit log and
  the event from the employee that \<open>ChangeStatus\<close> has already changed: both hold the new
  status as the old one.\<close>

lemma status_change_old_is_new:
  assumes "ChangeStatus clk loaded newStatus = Inr employee"
  shows "createAuditLogForStatusChange now newid employee newStatus userID ipAddress userAgent =
           audit_or_nil (NewAuditLog now newid (ID employee) OperationChangeStatus userID
                           [(''status'', VString newStatus)] [(''status'', VString newStatus)]
                           ipAddress userAgent)"
    and "OldStatus (NewEmployeeStatusChangedEvent now newid' empID (Status employee) newStatus
                      userID) = newStatus"
  using ChangeStatus_sets_status [OF assms]
  by (simp_all add: createAuditLogForStatusChange_def NewEmployeeStatusChangedEvent_def)

text \<open>
  C3. \<open>ChangeEmployeeStatus\<close> on \<open>john\<close>, whose status is ACTIVE, with the new status
  ON_LEAVE succeeds; the audit log that it hands to the repository has ON_LEAVE, not
  ACTIVE, under \<open>status\<close> in its old values, and the event that it stores has ON_LEAVE,
  not ACTIVE, as \<open>OldStatus\<close>.
\<close>

theorem ChangeEmployeeStatus_loses_old_status:
  "ChangeEmployeeStatus memory_service clock0 ids0 7 EmployeeStatusOnLeave ''admin''
     ''192.168.1.1'' ''agent'' (empty_memory\<lparr>employees := [john]\<rparr>) =
   (Inr (john\<lparr>Status := EmployeeStatusOnLeave, UpdatedAt := 2000\<rparr>),
    \<lparr>employees = [john\<lparr>Status := EmployeeStatusOnLeave, UpdatedAt := 2000\<rparr>],
     audit_logs = [Some (status_log\<lparr>OldValues := [(''status'', VString ''ON_LEAVE'')]\<rparr>)],
     stored_events =
       [EmployeeStatusChanged
          (NewEmployeeStatusChangedEvent 2000 101 7 EmployeeStatusOnLeave
             EmployeeStatusOnLeave ''admin'')]\<rparr>) \<and>
   Status john = ''ACTIVE'' \<and>
   OldStatus (NewEmployeeStatusChangedEvent 2000 101 7 EmployeeStatusOnLeave
                EmployeeStatusOnLeave ''admin'') = ''ON_LEAVE''"
  by (simp add: ChangeEmployeeStatus_def ChangeStatus_def ValidateTransition_def
      CanChangeTo_def createAuditLogForStatusChange_def NewEmployeeStatusChangedEvent_def
      service_defs validator_defs status_log_def john_def clock0_def)

subsection \<open>CreateEmployee after the employee is saved\<close>

lemma creation_log_has_no_old_values:
  "createAuditLogForCreation now newid employee userID ipAddress userAgent = Some a \<Longrightarrow>
     OldValues a = []"
  by (auto simp add: createAuditLogForCreation_def audit_or_nil_def NewAuditLog_def Let_def
        split: option.splits sum.splits)

lemma NewAuditLogCreatedEvent_creation_log:
  "OldValues a = [] \<Longrightarrow> \<exists>ev. NewAuditLogCreatedEvent lib now newid (Some a) = Done ev"
  by (simp add: NewAuditLogCreatedEvent_def GetChangedFields_def Let_def)

text \<open>
  Once the employee is saved, what the audit log repository, the event store and the
  handlers return does not reach the result: \<open>CreateEmployee\<close> returns the employee when
  \<open>NewAuditLog\<close> has built the audit log, and panics when it has not.
\<close>

lemma CreateEmployee_after_save:
  assumes "validateEmployeeCreation s email managerID w0 = (None, w1)"
      and "NewEmployee lib clk (ids 0) firstName lastName email phone department position
             hireDate salary managerID address = Inr employee"
      and "employeeRepo_Create s employee w1 = (None, w2)"
  shows "fst (CreateEmployee s lib clk ids firstName lastName email phone department position
                hireDate salary managerID address userID ipAddress userAgent w0) =
           (case createAuditLogForCreation (Now clk) (ids 1) employee userID ipAddress
                   userAgent of
              None \<Rightarrow> Fault NilPointerDereference
            | Some auditLog \<Rightarrow> Done (Inr employee))"
proof (cases "createAuditLogForCreation (Now clk) (ids 1) employee userID ipAddress userAgent")
  case None
  then show ?thesis
    using assms
    by (simp add: CreateEmployee_def NewAuditLogCreatedEvent_def Let_def split: prod.splits)
next
  case (Some a)
  then have "OldValues a = []" by (rule creation_log_has_no_old_values)
  then obtain ev where "NewAuditLogCreatedEvent lib (Now clk) (ids 3) (Some a) = Done ev"
    using NewAuditLogCreatedEvent_creation_log by blast
  then show ?thesis
    using assms Some by (simp add: CreateEmployee_def Let_def split: prod.splits)
qed

lemma validateIPAddress_None_iff:
  "validateIPAddress ip = None \<longleftrightarrow> 7 \<le> length ip \<and> length ip \<le> 45"
  by (auto simp add: validateIPAddress_def first_error_None_iff check_None_iff)

lemma validateOperation_create: "validateOperation OperationCreateEmployee = None"
  by (simp add: validateOperation_def isValidOperationFormat_def OperationCreateEmployee_def
      check_def in_class_def lower_az_def)

lemma createAuditLogForCreation_None_iff:
  "createAuditLogForCreation now newid employee userID ipAddress userAgent = None \<longleftrightarrow>
     newid = uuid_Nil \<or> ID employee = uuid_Nil \<or> userID = [] \<or> IsZero now \<or>
     length ipAddress < 7 \<or> 45 < length ipAddress"
proof -
  have snapshot: "createEmployeeSnapshot employee \<noteq> []"
    by (simp add: createEmployeeSnapshot_def)
  have "createAuditLogForCreation now newid employee userID ipAddress userAgent = None \<longleftrightarrow>
        AuditLog_Validate
          \<lparr>AuditLog_ID = newid, EmployeeID = ID employee, Operation = OperationCreateEmployee,
           UserID = userID, Timestamp = now, OldValues = [],
           NewValues = createEmployeeSnapshot employee, IPAddress = ipAddress,
           UserAgent = userAgent\<rparr> \<noteq> None"
    by (simp add: createAuditLogForCreation_def audit_or_nil_def NewAuditLog_def Let_def
        split: option.splits)
  also have "\<dots> \<longleftrightarrow> newid = uuid_Nil \<or> ID employee = uuid_Nil \<or> userID = [] \<or> IsZero now \<or>
     length ipAddress < 7 \<or> 45 < length ipAddress"
    using snapshot
    by (auto simp add: AuditLog_Validate_None_iff validateOperation_create
        validateIPAddress_None_iff)
  finally show ?thesis .
qed

text \<open>
  C1. \<open>CreateEmployee\<close> with the user \<open>admin\<close> at the address \<open>::1\<close>, which
  \<open>validateIPAddress\<close> finds too short, on a service whose ports all succeed: the
  employee is saved, \<open>createAuditLogForCreation\<close> returns nil, and
  \<open>NewAuditLogCreatedEvent\<close> dereferences it; no employee is returned.
\<close>

theorem CreateEmployee_panics_without_audit_log:
  "CreateEmployee memory_service ascii_lib clock0 ids0 ''John'' ''Doe''
     ''john.doe@example.com'' ''555-123-4567'' ''Engineering'' ''Software Engineer'' 1000
     (Fin 75000) None None ''admin'' ''::1'' ''agent'' empty_memory =
   (Fault NilPointerDereference,
    \<lparr>employees = [john\<lparr>ID := 100, CreatedAt := 2000, UpdatedAt := 2000\<rparr>],
     audit_logs = [None],
     stored_events =
       [EmployeeCreated
          (NewEmployeeCreatedEvent 2000 102
             (john\<lparr>ID := 100, CreatedAt := 2000, UpdatedAt := 2000\<rparr>))]\<rparr>)"
  by (simp add: CreateEmployee_def validateEmployeeCreation_def NewEmployee_def
      createAuditLogForCreation_def NewEmployeeCreatedEvent_def NewAuditLogCreatedEvent_def
      service_defs validator_defs john_def clock0_def ascii_lib_def)

lemma CreateEmployee_failing_channels:
  "fst (CreateEmployee failing_channels ascii_lib clock0 ids0 ''John'' ''Doe''
     ''john.doe@example.com'' ''555-123-4567'' ''Engineering'' ''Software Engineer'' 1000
     (Fin 75000) None None ''admin'' ''192.168.1.1'' ''agent'' empty_memory) =
   Done (Inr (john\<lparr>ID := 100, CreatedAt := 2000, UpdatedAt := 2000\<rparr>))"
proof -
  have v: "validateEmployeeCreation failing_channels ''john.doe@example.com'' None empty_memory =
             (None, empty_memory)"
    by (simp add: validateEmployeeCreation_def failing_channels_def service_defs)
  have n: "NewEmployee ascii_lib clock0 (ids0 0) ''John'' ''Doe'' ''john.doe@example.com''
             ''555-123-4567'' ''Engineering'' ''Software Engineer'' 1000 (Fin 75000) None None =
           Inr (john\<lparr>ID := 100, CreatedAt := 2000, UpdatedAt := 2000\<rparr>)"
    by (simp add: NewEmployee_def validator_defs john_def clock0_def ascii_lib_def ids0_def)
  have c: "employeeRepo_Create failing_channels
             (john\<lparr>ID := 100, CreatedAt := 2000, UpdatedAt := 2000\<rparr>) empty_memory =
           (None, empty_memory\<lparr>employees :=
                    [john\<lparr>ID := 100, CreatedAt := 2000, UpdatedAt := 2000\<rparr>]\<rparr>)"
    by (simp add: failing_channels_def service_defs)
  have a: "createAuditLogForCreation (Now clock0) (ids0 1)
             (john\<lparr>ID := 100, CreatedAt := 2000, UpdatedAt := 2000\<rparr>) ''admin''
             ''192.168.1.1'' ''agent'' \<noteq> None"
    by (simp add: createAuditLogForCreation_None_iff ids0_def clock0_def uuid_Nil_def
        IsZero_def)
  show ?thesis
    using CreateEmployee_after_save
            [where ids = ids0 and userID = "''admin''" and ipAddress = "''192.168.1.1''"
               and userAgent = "''agent''", OF v n c] a
    by (auto split: option.splits)
qed

subsection \<open>Validity of an employee under its operations\<close>

lemma NewEmployee_valid:
  "NewEmployee lib clk newid firstName lastName email phone department position hireDate
     salary managerID address = Inr e \<Longrightarrow> Employee_Validate lib clk e = None"
  by (auto simp add: NewEmployee_Inr_iff)

lemma ChangeStatus_valid:
  assumes "Employee_Validate lib clk e = None" and "ChangeStatus clk' e t = Inr e'"
  shows "Employee_Validate lib clk e' = None"
  using assms
  by (auto simp add: Employee_Validate_None_iff ChangeStatus_def ValidateTransition_def
        CanChangeTo_def split: if_splits)

lemma UpdateSalary_valid:
  assumes "Employee_Validate lib clk e = None" and "UpdateSalary clk' e s = Inr e'"
  shows "Employee_Validate lib clk e' = None"
  using assms
  by (auto simp add: Employee_Validate_None_iff UpdateSalary_def split: option.splits if_splits)

lemma UpdateContactInfo_valid:
  assumes "Employee_Validate lib clk e = None" and "UpdateContactInfo clk' e email phone = Inr e'"
  shows "Employee_Validate lib clk e' = None"
proof -
  from assms(2) have "first_error [validateEmail email,
                        if phone \<noteq> [] then validatePhone phone else None] = None"
    and e': "e' = e\<lparr>Email := email, Phone := phone, UpdatedAt := Now clk'\<rparr>"
    by (auto simp add: UpdateContactInfo_def split: option.splits)
  then have "validateEmail email = None" and "phone \<noteq> [] \<longrightarrow> validatePhone phone = None"
    by (auto simp add: first_error_None_iff split: if_splits)
  then show ?thesis using assms(1) by (simp add: e' Employee_Validate_None_iff)
qed

lemma UpdatePosition_valid:
  assumes "Employee_Validate lib clk e = None" and "UpdatePosition lib clk' e p d = Inr e'"
  shows "Employee_Validate lib clk e' = None"
proof -
  from assms(2) have "first_error [validatePosition lib p, validateDepartment lib d] = None"
    and e': "e' = e\<lparr>Position := p, Department := d, UpdatedAt := Now clk'\<rparr>"
    by (auto simp add: UpdatePosition_def split: option.splits if_splits)
  then have "validatePosition lib p = None" and "validateDepartment lib d = None"
    by (auto simp add: first_error_None_iff)
  then show ?thesis using assms(1) by (simp add: e' Employee_Validate_None_iff)
qed

lemma UpdateAddress_valid:
  assumes "Employee_Validate lib clk e = None" and "UpdateAddress lib clk' e address = Inr e'"
  shows "Employee_Validate lib clk e' = None"
  using assms
  by (auto simp add: Employee_Validate_None_iff UpdateAddress_def split: option.splits)

lemma SetManager_valid:
  assumes "Employee_Validate lib clk e = None" and "SetManager clk' e managerID = Inr e'"
  shows "Employee_Validate lib clk e' = None"
  using assms
  by (auto simp add: Employee_Validate_None_iff SetManager_def split: if_splits)

text \<open>
  C5. \<open>NewEmployee\<close> returns valid employees only (\<open>NewEmployee_valid\<close>) and the six
  methods of the aggregate keep a valid employee valid (the lemmas above, the clock of
  the validation held fixed). The partial update does not: \<open>applyEmployeeUpdates\<close>
  assigns the salary -5000 to the valid employee \<open>john\<close> and succeeds, \<open>UpdateEmployee\<close>
  saves and returns that employee, and it no longer passes \<open>Validate\<close>.
\<close>

theorem partial_update_breaks_validity:
  "Employee_Validate ascii_lib clock0 john = None \<and>
   applyEmployeeUpdates ascii_lib clock0 john [(''salary'', VFloat (Fin (- 5000)))] =
     Inr (john\<lparr>Salary := Fin (- 5000), UpdatedAt := 2000\<rparr>, [''salary'']) \<and>
   fst (UpdateEmployee memory_service ascii_lib clock0 ids0 7
          [(''salary'', VFloat (Fin (- 5000)))] ''admin'' ''192.168.1.1'' ''agent''
          (empty_memory\<lparr>employees := [john]\<rparr>)) =
     Inr (john\<lparr>Salary := Fin (- 5000), UpdatedAt := 2000\<rparr>) \<and>
   Employee_Validate ascii_lib clock0 (john\<lparr>Salary := Fin (- 5000), UpdatedAt := 2000\<rparr>) =
     Some (ErrorString ''salary cannot be negative'')"
proof -
  have applied: "applyEmployeeUpdates ascii_lib clock0 john [(''salary'', VFloat (Fin (- 5000)))] =
     Inr (john\<lparr>Salary := Fin (- 5000), UpdatedAt := 2000\<rparr>, [''salary''])"
    by (simp add: applyEmployeeUpdates_def clock0_def)
  have run: "fst (UpdateEmployee memory_service ascii_lib clock0 ids0 7
          [(''salary'', VFloat (Fin (- 5000)))] ''admin'' ''192.168.1.1'' ''agent''
          (empty_memory\<lparr>employees := [john]\<rparr>)) =
     Inr (john\<lparr>Salary := Fin (- 5000), UpdatedAt := 2000\<rparr>)"
    by (simp add: UpdateEmployee_def applyEmployeeUpdates_def validateEmployeeUpdate_def
        createAuditLogForUpdate_def NewEmployeeUpdatedEvent_def service_defs validator_defs
        john_def clock0_def)
  have bad: "Employee_Validate ascii_lib clock0
               (john\<lparr>Salary := Fin (- 5000), UpdatedAt := 2000\<rparr>) =
             Some (ErrorString ''salary cannot be negative'')"
    by (simp add: validator_defs john_def clock0_def ascii_lib_def)
  show ?thesis using Employee_Validate_john applied run bad by simp
qed

subsection \<open>The errors of AuthenticateUser\<close>

lemma AuthenticateUser_found:
  assumes "userRepo_FindByUsername s username w0 = (Inr found, w1)"
  shows "fst (AuthenticateUser s lib clk ids username password ipAddress userAgent w0) =
           (case found of
              None \<Rightarrow> Inl ErrInvalidCredentials
            | Some u \<Rightarrow>
                if \<not> IsActive u then Inl ErrUserNotActive
                else if \<not> CheckPassword lib password (Password u) then Inl ErrInvalidCredentials
                else Inr (UpdateLastLogin clk u))"
  using assms
  by (simp add: AuthenticateUser_def Authenticate_def Let_def split: option.splits prod.splits)

text \<open>
  C4, as the claim states it, fails on \<open>alice\<close>, whose account is deactivated: with a
  password that does not match the stored hash the call fails with \<open>ErrUserNotActive\<close>, not with
  \<open>ErrInvalidCredentials\<close>.
\<close>

theorem AuthenticateUser_inactive_wrong_password:
  "userRepo_FindByUsername directory_service ''alice'' \<lparr>users = [alice], login_events = []\<rparr> =
     (Inr (Some alice), \<lparr>users = [alice], login_events = []\<rparr>) \<and>
   \<not> CheckPassword ascii_lib ''guess'' (Password alice) \<and>
   fst (AuthenticateUser directory_service ascii_lib clock0 ids0 ''alice'' ''guess''
          ''192.168.1.1'' ''agent'' \<lparr>users = [alice], login_events = []\<rparr>) =
     Inl ErrUserNotActive \<and>
   fst (AuthenticateUser directory_service ascii_lib clock0 ids0 ''alice'' ''guess''
          ''192.168.1.1'' ''agent'' \<lparr>users = [alice], login_events = []\<rparr>) \<noteq>
     Inl ErrInvalidCredentials"
  by (simp add: AuthenticateUser_def directory_service_def alice_def CheckPassword_def
      ascii_lib_def)

text \<open>
  C4, amended. When the lookup succeeds, \<open>AuthenticateUser\<close> fails with
  \<open>ErrInvalidCredentials\<close> if there is no user of that name, or if the user is active and
  the password does not match the stored hash; it fails with \<open>ErrUserNotActive\<close> exactly
  when the user exists and is deactivated, whatever the password.
\<close>

theorem AuthenticateUser_errors:
  assumes "userRepo_FindByUsername s username w0 = (Inr found, w1)"
  shows "(found = None \<longrightarrow>
            fst (AuthenticateUser s lib clk ids username password ipAddress userAgent w0) =
              Inl ErrInvalidCredentials) \<and>
         (\<forall>u. found = Some u \<and> IsActive u \<and> \<not> CheckPassword lib password (Password u) \<longrightarrow>
            fst (AuthenticateUser s lib clk ids username password ipAddress userAgent w0) =
              Inl ErrInvalidCredentials) \<and>
         (fst (AuthenticateUser s lib clk ids username password ipAddress userAgent w0) =
            Inl ErrUserNotActive \<longleftrightarrow> (\<exists>u. found = Some u \<and> \<not> IsActive u))"
  by (cases found) (simp_all add: AuthenticateUser_found [OF assms])

theorem AuthenticateUser_errors_witness:
  "userRepo_FindByUsername directory_service ''bob'' \<lparr>users = [alice], login_events = []\<rparr> =
     (Inr None, \<lparr>users = [alice], login_events = []\<rparr>) \<and>
   fst (AuthenticateUser directory_service ascii_lib clock0 ids0 ''bob'' ''guess''
          ''192.168.1.1'' ''agent'' \<lparr>users = [alice], login_events = []\<rparr>) =
     Inl ErrInvalidCredentials \<and>
   userRepo_FindByUsername directory_service ''alice''
     \<lparr>users = [alice\<lparr>IsActive := True\<rparr>], login_events = []\<rparr> =
     (Inr (Some (alice\<lparr>IsActive := True\<rparr>)),
      \<lparr>users = [alice\<lparr>IsActive := True\<rparr>], login_events = []\<rparr>) \<and>
   IsActive (alice\<lparr>IsActive := True\<rparr>) \<and>
   \<not> CheckPassword ascii_lib ''guess'' (Password (alice\<lparr>IsActive := True\<rparr>)) \<and>
   fst (AuthenticateUser directory_service ascii_lib clock0 ids0 ''alice'' ''guess''
          ''192.168.1.1'' ''agent'' \<lparr>users = [alice\<lparr>IsActive := True\<rparr>], login_events = []\<rparr>) =
     Inl ErrInvalidCredentials \<and>
   userRepo_FindByUsername directory_service ''alice'' \<lparr>users = [alice], login_events = []\<rparr> =
     (Inr (Some alice), \<lparr>users = [alice], login_events = []\<rparr>) \<and>
   \<not> IsActive alice \<and>
   fst (AuthenticateUser directory_service ascii_lib clock0 ids0 ''alice'' ''Secret123!''
          ''192.168.1.1'' ''agent'' \<lparr>users = [alice], login_events = []\<rparr>) =
     Inl ErrUserNotActive"
proof -
  have bob: "userRepo_FindByUsername directory_service ''bob''
               \<lparr>users = [alice], login_events = []\<rparr> =
             (Inr None, \<lparr>users = [alice], login_events = []\<rparr>)"
    by (simp add: directory_service_def alice_def)
  have active: "userRepo_FindByUsername directory_service ''alice''
                  \<lparr>users = [alice\<lparr>IsActive := True\<rparr>], login_events = []\<rparr> =
                (Inr (Some (alice\<lparr>IsActive := True\<rparr>)),
                 \<lparr>users = [alice\<lparr>IsActive := True\<rparr>], login_events = []\<rparr>)"
    by (simp add: directory_service_def alice_def)
  have inactive: "userRepo_FindByUsername directory_service ''alice''
                    \<lparr>users = [alice], login_events = []\<rparr> =
                  (Inr (Some alice), \<lparr>users = [alice], login_events = []\<rparr>)"
    by (simp add: directory_service_def alice_def)
  have wrong: "\<not> CheckPassword ascii_lib ''guess'' (Password (alice\<lparr>IsActive := True\<rparr>))"
    by (simp add: CheckPassword_def ascii_lib_def alice_def)
  have off: "\<not> IsActive alice" by (simp add: alice_def)
  note b = AuthenticateUser_errors
             [where lib = ascii_lib and password = "''guess''" and clk = clock0 and ids = ids0
                and ipAddress = "''192.168.1.1''" and userAgent = "''agent''", OF bob]
  note a1 = AuthenticateUser_errors
             [where lib = ascii_lib and password = "''guess''" and clk = clock0 and ids = ids0
                and ipAddress = "''192.168.1.1''" and userAgent = "''agent''", OF active]
  note i = AuthenticateUser_errors
             [where lib = ascii_lib and password = "''Secret123!''" and clk = clock0 and ids = ids0
                and ipAddress = "''192.168.1.1''" and userAgent = "''agent''", OF inactive]
  show ?thesis
    using bob active inactive wrong off b a1 i by simp
qed

subsection \<open>The percentage of a salary change\<close>


lemma validateSalary_None_positive:
  "validateSalary s = None \<Longrightarrow> s = NaN \<or> f64_gt s (Fin 0)"
  by (cases s) (auto simp add: validateSalary_cases f64_gt_def split: if_splits)

lemma changePercent_zero: "changePercent (Fin 0) newSalary = None"
  by (simp add: changePercent_def f64_div_def)




text \<open>
  The old salary is the salary of whatever employee the repository returns. The partial
  update can store a zero salary, and \<open>UpdateEmployeeSalary\<close> on that employee divides
  by zero.
\<close>

lemma UpdateEmployeeSalary_after_zero_salary:
  "fst (UpdateEmployeeSalary memory_service clock0 ids0 7 (Fin 50000) ''admin''
          ''192.168.1.1'' ''agent''
          (snd (UpdateEmployee memory_service lib clock0 ids0 7 [(''salary'', VFloat (Fin 0))]
                  ''admin'' ''192.168.1.1'' ''agent'' (empty_memory\<lparr>employees := [john]\<rparr>)))) =
   Fault FloatDivisionByZero"
proof -
  have "employees
          (snd (UpdateEmployee memory_service lib clock0 ids0 7 [(''salary'', VFloat (Fin 0))]
                  ''admin'' ''192.168.1.1'' ''agent'' (empty_memory\<lparr>employees := [john]\<rparr>))) =
        [john\<lparr>Salary := Fin 0, UpdatedAt := 2000\<rparr>]"
    by (simp add: UpdateEmployee_def applyEmployeeUpdates_def validateEmployeeUpdate_def
        createAuditLogForUpdate_def NewEmployeeUpdatedEvent_def service_defs validator_defs
        john_def clock0_def)
  then show ?thesis
    by (simp add: UpdateEmployeeSalary_def UpdateSalary_def IsTerminated_def
        createAuditLogForSalaryChange_def NewEmployeeSalaryChangedEvent_def changePercent_zero
        Let_def service_defs validator_defs john_def clock0_def)
qed



end
